theory Spec2Isabelle
  imports Complex_Main "HOL-Library.Stream"
begin

section \<open>FreshBitesDataGenerator: configuration\<close>

text \<open>
  The model follows \<^verbatim>\<open>src/Dataset/Dataset.py\<close>. Python floats are modelled as
  real numbers (rounding of the binary representation is not modelled); Python and numpy
  integers are modelled as \<^typ>\<open>int\<close>.  The attributes set by \<^verbatim>\<open>__init__\<close>
  are constants.
\<close>

definition skus :: "string list" where
  "skus = [''SKU001_Snacks'', ''SKU002_Beverages'', ''SKU003_Cheese'', ''SKU004_Bakery'',
           ''SKU005_Frozen'']"

definition dcs :: "string list" where
  "dcs = [''Mumbai'', ''Kolkata'']"

definition suppliers :: "string list" where
  "suppliers = [''SUP001'', ''SUP002'', ''SUP003'', ''SUP004'', ''SUP005'']"

definition weeks :: int where
  "weeks = 104"

definition festival_weeks :: "int list" where
  "festival_weeks = [8, 16, 24, 32, 40, 48, 56, 64, 72, 80, 88, 96]"

definition plant_capacity :: int where
  "plant_capacity = 10000"

definition sku_multipliers :: "string \<rightharpoonup> real" where
  "sku_multipliers =
     [''SKU001_Snacks'' \<mapsto> 1.2, ''SKU002_Beverages'' \<mapsto> 1.0, ''SKU003_Cheese'' \<mapsto> 0.8,
      ''SKU004_Bakery'' \<mapsto> 1.1, ''SKU005_Frozen'' \<mapsto> 0.9]"

section \<open>Python primitives\<close>

datatype error = KeyError | IndexError

text \<open>\<^verbatim>\<open>int(x)\<close> on a float truncates towards zero.\<close>

definition py_int :: "real \<Rightarrow> int" where
  "py_int x = (if 0 \<le> x then \<lfloor>x\<rfloor> else \<lceil>x\<rceil>)"

text \<open>\<^verbatim>\<open>range(a, b)\<close>: the integers from \<open>a\<close> up to \<open>b - 1\<close>.\<close>

definition py_range :: "int \<Rightarrow> int \<Rightarrow> int list" where
  "py_range a b = [a..b - 1]"

text \<open>
  The state of numpy's global generator is the stream of the values that
  \<^verbatim>\<open>np.random.random()\<close> will return; a call takes the head and leaves the tail.
  numpy draws each value from the half-open interval from 0 to 1, which is the
  predicate \<open>unit_draws\<close>.
\<close>

type_synonym rng = "real stream"

definition np_random :: "rng \<Rightarrow> real \<times> rng" where
  "np_random g = (shd g, stl g)"

definition unit_draws :: "rng \<Rightarrow> bool" where
  "unit_draws g \<longleftrightarrow> (\<forall>x\<in>sset g. 0 \<le> x \<and> x < 1)"

text \<open>
  A \<^verbatim>\<open>for\<close> loop that appends rows to a list while drawing random numbers: the
  body gets the loop variable and the generator state, and returns the rows it appended
  and the state it left.
\<close>

fun for_rng :: "('a \<Rightarrow> rng \<Rightarrow> 'b list \<times> rng) \<Rightarrow> 'a list \<Rightarrow> rng \<Rightarrow> 'b list \<times> rng" where
  "for_rng body [] g = ([], g)"
| "for_rng body (x # xs) g =
     (let (ys, g1) = body x g;
          (zs, g2) = for_rng body xs g1
      in (ys @ zs, g2))"

section \<open>Tables\<close>

text \<open>
  A row of a DataFrame is a record of its columns.  The columns \<^verbatim>\<open>sku\<close> and
  \<^verbatim>\<open>supplier_id\<close> of the suppliers and deliveries tables carry the table's name
  as a prefix, since a field name is a constant of the theory.
\<close>

record row_key =
  week :: int
  sku :: string
  dc :: string

record forecast_row = row_key +
  forecast_qty :: int
  festival_flag :: int

record actual_row = row_key +
  actual_qty :: int

record supplier_row =
  supplier_id :: string
  supplier_sku :: string
  avg_lead_time_wk :: real
  lead_time_std :: real
  on_time_prob :: real

record delivery_row =
  week_release :: int
  week_arrival :: int
  delivery_sku :: string
  qty :: int
  delivery_supplier_id :: string

section \<open>generate_suppliers_data\<close>

text \<open>
  \<^verbatim>\<open>enumerate(self.suppliers)\<close> pairs each supplier with its index \<open>i\<close>, and
  \<^verbatim>\<open>self.skus[i]\<close> reads the SKU list at that index.  Both lists have five
  entries, so the read is always in range.  The three draws of the dictionary literal
  happen in the order of its keys.
\<close>

definition supplier_body :: "nat \<times> string \<Rightarrow> rng \<Rightarrow> supplier_row list \<times> rng" where
  "supplier_body = (\<lambda>(i, sid) g.
     let sku = skus ! i;
         (r1, g1) = np_random g;
         (r2, g2) = np_random g1;
         (r3, g3) = np_random g2
     in ([\<lparr>supplier_id = sid, supplier_sku = sku,
            avg_lead_time_wk = 2 + r1 * 3,
            lead_time_std = 0.5 + r2 * 1,
            on_time_prob = 0.7 + r3 * 0.25\<rparr>], g3))"

definition generate_suppliers_data :: "rng \<Rightarrow> supplier_row list \<times> rng" where
  "generate_suppliers_data g = for_rng supplier_body (enumerate 0 suppliers) g"

section \<open>generate_deliveries_data\<close>

definition delivery_body :: "int \<Rightarrow> supplier_row \<Rightarrow> rng \<Rightarrow> delivery_row list \<times> rng" where
  "delivery_body wk supplier g =
     (let (r1, g1) = np_random g in
      if r1 < 0.6 then
        (let (r2, g2) = np_random g1;
             lead_time = max 1 (py_int (avg_lead_time_wk supplier
                                         + (r2 - 0.5) * lead_time_std supplier * 2));
             arrival_week = wk + lead_time
         in if arrival_week \<le> weeks then
              (let (r3, g3) = np_random g2
               in ([\<lparr>week_release = wk, week_arrival = arrival_week,
                      delivery_sku = supplier_sku supplier,
                      qty = py_int (200 + r3 * 800),
                      delivery_supplier_id = supplier_id supplier\<rparr>], g3))
            else ([], g2))
      else ([], g1))"

definition generate_deliveries_data :: "supplier_row list \<Rightarrow> rng \<Rightarrow> delivery_row list \<times> rng" where
  "generate_deliveries_data suppliers_df g =
     for_rng (\<lambda>wk. for_rng (delivery_body wk) suppliers_df) (py_range 1 (weeks - 5)) g"

section \<open>generate_forecast_data\<close>

text \<open>
  \<^verbatim>\<open>self.sku_multipliers[sku]\<close> raises KeyError for a SKU that is not a key of the
  dictionary; the lookup is evaluated before the call of \<^verbatim>\<open>np.random.random()\<close>.
\<close>

definition generate_base_demand :: "int \<Rightarrow> string \<Rightarrow> rng \<Rightarrow> error + real \<times> rng" where
  "generate_base_demand wk s g =
     (let seasonality = 1 + 0.3 * sin ((real_of_int wk * 2 * pi) / 52);
          weekly_pattern = 1 + 0.1 * sin ((real_of_int wk * 2 * pi) / 4)
      in case sku_multipliers s of
           None \<Rightarrow> Inl KeyError
         | Some m \<Rightarrow>
             (let base_demand = 500 * m * seasonality * weekly_pattern;
                  (r, g1) = np_random g;
                  noise = (r - 0.5) * 100
              in Inr (max 50 (base_demand + noise), g1)))"

text \<open>The same loop, for a body that may raise: the first exception ends the loop.\<close>

fun for_rng_raising ::
  "('a \<Rightarrow> rng \<Rightarrow> error + 'b list \<times> rng) \<Rightarrow> 'a list \<Rightarrow> rng \<Rightarrow> error + 'b list \<times> rng" where
  "for_rng_raising body [] g = Inr ([], g)"
| "for_rng_raising body (x # xs) g =
     (case body x g of
        Inl e \<Rightarrow> Inl e
      | Inr (ys, g1) \<Rightarrow>
          (case for_rng_raising body xs g1 of
             Inl e \<Rightarrow> Inl e
           | Inr (zs, g2) \<Rightarrow> Inr (ys @ zs, g2)))"

definition forecast_body :: "int \<Rightarrow> string \<Rightarrow> string \<Rightarrow> rng \<Rightarrow> error + forecast_row list \<times> rng" where
  "forecast_body wk s d g =
     (case generate_base_demand wk s g of
        Inl e \<Rightarrow> Inl e
      | Inr (base_demand, g1) \<Rightarrow>
          (let is_festival = (wk \<in> set festival_weeks);
               (festival_uplift, g2) =
                  (if is_festival then (let (r, g') = np_random g1 in (0.4 + r * 0.1, g'))
                   else (0, g1));
               forecast_qty = py_int (base_demand * (1 + festival_uplift))
           in Inr ([\<lparr>week = wk, sku = s, dc = d, forecast_qty = forecast_qty,
                     festival_flag = (if is_festival then 1 else 0)\<rparr>], g2)))"

definition generate_forecast_data :: "rng \<Rightarrow> error + forecast_row list \<times> rng" where
  "generate_forecast_data g =
     for_rng_raising
       (\<lambda>wk. for_rng_raising (\<lambda>s. for_rng_raising (\<lambda>d. forecast_body wk s d) dcs) skus)
       (py_range 1 (weeks + 1)) g"

section \<open>generate_actuals_data\<close>

text \<open>
  \<^verbatim>\<open>iterrows\<close> visits the rows of the forecast table in order.  A festival flag
  is true when it is not zero.
\<close>

definition actual_body :: "forecast_row \<Rightarrow> rng \<Rightarrow> actual_row list \<times> rng" where
  "actual_body row g =
     (let variance = (if festival_flag row \<noteq> 0 then 0.3 else 0.15);
          (r1, g1) = np_random g;
          noise = (r1 - 0.5) * 2 * variance;
          actual_qty0 = py_int (max 0 (real_of_int (forecast_qty row) * (1 + noise)));
          (r2, g2) = np_random g1;
          actual_qty1 =
            (if dc row = ''Mumbai'' then py_int (real_of_int actual_qty0 * (0.95 + r2 * 0.1))
             else py_int (real_of_int actual_qty0 * (1.0 + r2 * 0.05)))
      in ([\<lparr>week = week row, sku = sku row, dc = dc row, actual_qty = actual_qty1\<rparr>], g2))"

definition generate_actuals_data :: "forecast_row list \<Rightarrow> rng \<Rightarrow> actual_row list \<times> rng" where
  "generate_actuals_data forecast_df g = for_rng actual_body forecast_df g"

section \<open>calculate_baseline_forecast\<close>

text \<open>
  The value read from the table is a numpy integer and the mean is a numpy float, so the
  two divisions are numpy's: a zero divisor raises no exception (the warning is
  filtered by \<^verbatim>\<open>warnings.filterwarnings('ignore')\<close>), the quotient is an infinity,
  or not-a-number for zero divided by zero.
\<close>

datatype np_float = Finite real | PosInf | NegInf | NaN

definition np_true_divide :: "real \<Rightarrow> int \<Rightarrow> np_float" where
  "np_true_divide x a =
     (if a = 0 then (if x = 0 then NaN else if 0 < x then PosInf else NegInf)
      else Finite (x / real_of_int a))"

definition division_by_zero :: "np_float \<Rightarrow> bool" where
  "division_by_zero q \<longleftrightarrow> (case q of Finite _ \<Rightarrow> False | _ \<Rightarrow> True)"

record baseline_row = row_key +
  naive_forecast :: int
  festival_adjusted_forecast :: int
  actual :: int

record performance_row = row_key +
  naive_mape :: np_float
  festival_mape :: np_float
  is_festival :: bool

text \<open>\<^verbatim>\<open>Series.mean()\<close> of a column of integers.\<close>

definition mean :: "int list \<Rightarrow> real" where
  "mean xs = real_of_int (sum_list xs) / real (length xs)"

text \<open>The two selections of the loop body: the four weeks before, and the week itself.\<close>

definition last_four_of :: "actual_row list \<Rightarrow> int \<Rightarrow> string \<Rightarrow> string \<Rightarrow> int list" where
  "last_four_of actuals_df wk s d =
     map actual_qty
       (filter (\<lambda>r. wk - 4 \<le> week r \<and> week r < wk \<and> sku r = s \<and> dc r = d) actuals_df)"

definition actuals_of :: "actual_row list \<Rightarrow> int \<Rightarrow> string \<Rightarrow> string \<Rightarrow> int list" where
  "actuals_of actuals_df wk s d =
     map actual_qty (filter (\<lambda>r. week r = wk \<and> sku r = s \<and> dc r = d) actuals_df)"

text \<open>
  The body appends one row to each of the two lists, or none; the model returns the two
  rows as a pair.  \<^verbatim>\<open>.iloc[0]\<close> on an empty selection raises IndexError.
\<close>

definition baseline_body ::
  "actual_row list \<Rightarrow> int \<Rightarrow> string \<Rightarrow> string \<Rightarrow> error + (baseline_row \<times> performance_row) list" where
  "baseline_body actuals_df wk s d =
     (let last_four = last_four_of actuals_df wk s d
      in if 4 \<le> length last_four then
           (let naive_baseline = mean last_four;
                is_fest = (wk \<in> set festival_weeks);
                festival_adjusted = naive_baseline * (if is_fest then 1.45 else 1)
            in case actuals_of actuals_df wk s d of
                 [] \<Rightarrow> Inl IndexError
               | actual_value # _ \<Rightarrow>
                   Inr [(\<lparr>week = wk, sku = s, dc = d,
                           naive_forecast = py_int naive_baseline,
                           festival_adjusted_forecast = py_int festival_adjusted,
                           actual = actual_value\<rparr>,
                         \<lparr>week = wk, sku = s, dc = d,
                           naive_mape =
                             np_true_divide \<bar>real_of_int actual_value - naive_baseline\<bar> actual_value,
                           festival_mape =
                             np_true_divide \<bar>real_of_int actual_value - festival_adjusted\<bar> actual_value,
                           is_festival = is_fest\<rparr>)])
         else Inr [])"

fun for_raising :: "('a \<Rightarrow> error + 'b list) \<Rightarrow> 'a list \<Rightarrow> error + 'b list" where
  "for_raising body [] = Inr []"
| "for_raising body (x # xs) =
     (case body x of
        Inl e \<Rightarrow> Inl e
      | Inr ys \<Rightarrow> (case for_raising body xs of Inl e \<Rightarrow> Inl e | Inr zs \<Rightarrow> Inr (ys @ zs)))"

definition calculate_baseline_forecast ::
  "actual_row list \<Rightarrow> error + baseline_row list \<times> performance_row list" where
  "calculate_baseline_forecast actuals_df =
     (case for_raising
             (\<lambda>wk. for_raising (\<lambda>s. for_raising (\<lambda>d. baseline_body actuals_df wk s d) dcs) skus)
             (py_range 5 (weeks + 1)) of
        Inl e \<Rightarrow> Inl e
      | Inr rows \<Rightarrow> Inr (map fst rows, map snd rows))"

section \<open>generate_all_data\<close>

text \<open>
  The steps of \<^verbatim>\<open>generate_all_data\<close> that lead to the baseline and performance
  tables: the forecast, the actuals drawn next from the same generator, and the
  calculation on these actuals, which draws nothing.  The inventory, capacity, supplier
  and delivery tables are generated in between and enter none of the three.
\<close>

definition generate_all_data ::
  "rng \<Rightarrow> error + forecast_row list \<times> actual_row list \<times> baseline_row list \<times> performance_row list" where
  "generate_all_data g =
     (case generate_forecast_data g of
        Inl e \<Rightarrow> Inl e
      | Inr (forecast_df, g1) \<Rightarrow>
          (let (actuals_df, g2) = generate_actuals_data forecast_df g1
           in case calculate_baseline_forecast actuals_df of
                Inl e \<Rightarrow> Inl e
              | Inr (baseline_df, performance_df) \<Rightarrow>
                  Inr (forecast_df, actuals_df, baseline_df, performance_df)))"

section \<open>Keys of the rows\<close>

text \<open>
  The key of a row is its (week, sku, dc) triple; \<open>loop_keys wks\<close> lists the triples
  in the order in which the three nested loops over weeks, SKUs and locations visit them.
\<close>

definition key_of :: "'a row_key_scheme \<Rightarrow> int \<times> string \<times> string" where
  "key_of r = (week r, sku r, dc r)"

definition loop_keys :: "int list \<Rightarrow> (int \<times> string \<times> string) list" where
  "loop_keys wks = concat (map (\<lambda>wk. concat (map (\<lambda>s. concat (map (\<lambda>d. [(wk, s, d)]) dcs)) skus)) wks)"

section \<open>Example input\<close>

text \<open>
  A complete history of one SKU at one location, as an input of
  \<^verbatim>\<open>calculate_baseline_forecast\<close>: one row for each of the weeks 1 to 104, with the
  quantity given by \<open>qty_of\<close>.
\<close>

definition history :: "string \<Rightarrow> string \<Rightarrow> (int \<Rightarrow> int) \<Rightarrow> actual_row list" where
  "history s d qty_of =
     map (\<lambda>wk. \<lparr>week = wk, sku = s, dc = d, actual_qty = qty_of wk\<rparr>) [1..104]"

section \<open>Loops\<close>

lemma for_rng_rows:
  assumes "\<And>x g r. x \<in> set xs \<Longrightarrow> r \<in> set (fst (body x g)) \<Longrightarrow> P x r"
    and "r \<in> set (fst (for_rng body xs g))"
  shows "\<exists>x\<in>set xs. P x r"
  using assms
proof (induction xs arbitrary: g)
  case Nil
  then show ?case by simp
next
  case (Cons x xs)
  obtain ys g1 where b: "body x g = (ys, g1)" by (cases "body x g")
  obtain zs g2 where l: "for_rng body xs g1 = (zs, g2)" by (cases "for_rng body xs g1")
  from Cons.prems(2) b l have "r \<in> set ys \<or> r \<in> set zs" by simp
  then show ?case
  proof
    assume "r \<in> set ys"
    with b have "r \<in> set (fst (body x g))" by simp
    then have "P x r" by (rule Cons.prems(1)[rotated]) simp
    then show ?thesis by simp
  next
    assume "r \<in> set zs"
    with l have "r \<in> set (fst (for_rng body xs g1))" by simp
    with Cons.IH[of g1] Cons.prems(1) show ?thesis by auto
  qed
qed


lemma for_rng_reaches:
  assumes "\<And>x g. x \<in> set xs \<Longrightarrow> I g \<Longrightarrow> I (snd (body x g))"
    and "I g" and "x \<in> set xs"
  shows "\<exists>g'. I g' \<and> set (fst (body x g')) \<subseteq> set (fst (for_rng body xs g))"
  using assms
proof (induction xs arbitrary: g)
  case Nil
  then show ?case by simp
next
  case (Cons y ys)
  obtain rs g1 where b: "body y g = (rs, g1)" by (cases "body y g")
  obtain zs g2 where l: "for_rng body ys g1 = (zs, g2)" by (cases "for_rng body ys g1")
  show ?case
  proof (cases "x = y")
    case True
    with b l Cons.prems(2) show ?thesis by (intro exI[of _ g]) simp
  next
    case False
    with Cons.prems(3) have mem: "x \<in> set ys" by simp
    have "I (snd (body y g))" using Cons.prems(1)[of y g] Cons.prems(2) by simp
    with b have "I g1" by simp
    from Cons.IH[OF _ this mem] Cons.prems(1)
    obtain g' where "I g'" "set (fst (body x g')) \<subseteq> set (fst (for_rng body ys g1))"
      by auto
    with b l show ?thesis by (intro exI[of _ g']) auto
  qed
qed

lemma set_py_range: "set (py_range a b) = {a..b - 1}"
  by (simp add: py_range_def)

section \<open>Deliveries: release and arrival weeks\<close>

lemma delivery_body_row:
  assumes "r \<in> set (fst (delivery_body wk supplier g))"
  shows "week_release r = wk \<and> wk + 1 \<le> week_arrival r \<and> week_arrival r \<le> weeks"
  using assms
  by (auto simp: delivery_body_def np_random_def Let_def split: if_splits)

lemma deliveries_row:
  assumes "r \<in> set (fst (generate_deliveries_data suppliers_df g))"
  shows "week_release r \<in> {1..weeks - 6} \<and> week_release r + 1 \<le> week_arrival r
         \<and> week_arrival r \<le> weeks"
proof -
  let ?Q = "\<lambda>wk r. week_release r = wk \<and> wk + 1 \<le> week_arrival r \<and> week_arrival r \<le> weeks"
  have inner: "\<And>wk g r. r \<in> set (fst (for_rng (delivery_body wk) suppliers_df g)) \<Longrightarrow> ?Q wk r"
  proof -
    fix wk g r
    assume "r \<in> set (fst (for_rng (delivery_body wk) suppliers_df g))"
    then have "\<exists>supplier\<in>set suppliers_df. ?Q wk r"
      by (rule for_rng_rows[rotated]) (rule delivery_body_row)
    then show "?Q wk r" by blast
  qed
  from assms have "\<exists>wk\<in>set (py_range 1 (weeks - 5)). ?Q wk r"
    unfolding generate_deliveries_data_def
    by (rule for_rng_rows[rotated]) (rule inner)
  then show ?thesis by (auto simp: set_py_range)
qed

lemma delivery_body_zeros:
  assumes "shd z = 0" and "stl z = z"
    and "1 < avg_lead_time_wk supplier - lead_time_std supplier"
    and "avg_lead_time_wk supplier - lead_time_std supplier < 2"
    and "wk \<le> 103"
  shows "delivery_body wk supplier z =
     ([\<lparr>week_release = wk, week_arrival = wk + 1, delivery_sku = supplier_sku supplier,
        qty = 200, delivery_supplier_id = supplier_id supplier\<rparr>], z)"
proof -
  have "\<lfloor>avg_lead_time_wk supplier - lead_time_std supplier\<rfloor> = 1"
    using assms(3,4) by linarith
  then have lead: "py_int (avg_lead_time_wk supplier - lead_time_std supplier) = 1"
    using assms(3) by (simp add: py_int_def)
  have q: "py_int 200 = 200"
    by (simp add: py_int_def)
  show ?thesis
    using assms(5) by (simp add: delivery_body_def np_random_def weeks_def lead q assms(1,2))
qed

lemma for_rng_map:
  assumes "\<And>x g. x \<in> set xs \<Longrightarrow> I g \<Longrightarrow>
             I (snd (body x g)) \<and> map f (fst (body x g)) = K x
             \<and> (\<forall>r\<in>set (fst (body x g)). P x r)"
    and "I g"
  shows "I (snd (for_rng body xs g)) \<and> map f (fst (for_rng body xs g)) = concat (map K xs)
         \<and> (\<forall>r\<in>set (fst (for_rng body xs g)). \<exists>x\<in>set xs. P x r)"
  using assms
proof (induction xs arbitrary: g)
  case Nil
  then show ?case by simp
next
  case (Cons y ys)
  obtain rs g1 where b: "body y g = (rs, g1)" by (cases "body y g")
  obtain zs g2 where l: "for_rng body ys g1 = (zs, g2)" by (cases "for_rng body ys g1")
  from Cons.prems(1)[of y g] Cons.prems(2) b
  have hd: "I g1" "map f rs = K y" "\<forall>r\<in>set rs. P y r" by simp_all
  have "I (snd (for_rng body ys g1)) \<and> map f (fst (for_rng body ys g1)) = concat (map K ys)
        \<and> (\<forall>r\<in>set (fst (for_rng body ys g1)). \<exists>x\<in>set ys. P x r)"
    by (rule Cons.IH[OF _ hd(1)]) (simp add: Cons.prems(1))
  with l have tl: "I g2" "map f zs = concat (map K ys)" "\<forall>r\<in>set zs. \<exists>x\<in>set ys. P x r"
    by simp_all
  from b l hd tl show ?case by auto
qed

lemma for_rng_raising_map:
  assumes "\<And>x g. x \<in> set xs \<Longrightarrow> I g \<Longrightarrow>
             \<exists>ys g'. body x g = Inr (ys, g') \<and> I g' \<and> map f ys = K x \<and> (\<forall>r\<in>set ys. P r)"
    and "I g"
  shows "\<exists>rows g'. for_rng_raising body xs g = Inr (rows, g') \<and> I g'
           \<and> map f rows = concat (map K xs) \<and> (\<forall>r\<in>set rows. P r)"
  using assms
proof (induction xs arbitrary: g)
  case Nil
  then show ?case by simp
next
  case (Cons y ys)
  from Cons.prems(1)[of y g] Cons.prems(2)
  obtain rs g1 where b: "body y g = Inr (rs, g1)" and hd: "I g1" "map f rs = K y" "\<forall>r\<in>set rs. P r"
    by auto
  have "\<exists>rows g'. for_rng_raising body ys g1 = Inr (rows, g') \<and> I g'
           \<and> map f rows = concat (map K ys) \<and> (\<forall>r\<in>set rows. P r)"
    by (rule Cons.IH[OF _ hd(1)]) (simp add: Cons.prems(1))
  then obtain zs g2 where l: "for_rng_raising body ys g1 = Inr (zs, g2)"
    and tl: "I g2" "map f zs = concat (map K ys)" "\<forall>r\<in>set zs. P r"
    by auto
  from b l hd tl show ?case by auto
qed

lemma unit_draws_step:
  assumes "unit_draws g" and "np_random g = (r, g')"
  shows "0 \<le> r \<and> r < 1 \<and> unit_draws g'"
proof -
  from assms(2) have r: "r = shd g" and g': "g' = stl g"
    by (simp_all add: np_random_def)
  have "shd g \<in> sset g" by (rule shd_sset)
  moreover have "sset (stl g) \<subseteq> sset g" by (auto dest: stl_sset)
  ultimately show ?thesis
    using assms(1) unfolding unit_draws_def r g' by blast
qed

lemma unit_draws_sconst0: "unit_draws (sconst 0)"
  by (simp add: unit_draws_def)

section \<open>Suppliers\<close>

lemma supplier_body_row:
  assumes "unit_draws g"
  shows "unit_draws (snd (supplier_body x g))
         \<and> (\<forall>r\<in>set (fst (supplier_body x g)).
               2 \<le> avg_lead_time_wk r \<and> avg_lead_time_wk r < 5
             \<and> 0.5 \<le> lead_time_std r \<and> lead_time_std r < 1.5
             \<and> 0.7 \<le> on_time_prob r \<and> on_time_prob r < 0.95)"
proof -
  obtain i sid where x: "x = (i, sid)" by (cases x)
  obtain r1 g1 where d1: "np_random g = (r1, g1)" by (cases "np_random g")
  obtain r2 g2 where d2: "np_random g1 = (r2, g2)" by (cases "np_random g1")
  obtain r3 g3 where d3: "np_random g2 = (r3, g3)" by (cases "np_random g2")
  from unit_draws_step[OF assms d1] have u1: "0 \<le> r1" "r1 < 1" "unit_draws g1" by simp_all
  from unit_draws_step[OF u1(3) d2] have u2: "0 \<le> r2" "r2 < 1" "unit_draws g2" by simp_all
  from unit_draws_step[OF u2(3) d3] have u3: "0 \<le> r3" "r3 < 1" "unit_draws g3" by simp_all
  show ?thesis
    using u1 u2 u3 by (simp add: supplier_body_def x d1 d2 d3)
qed

lemma suppliers_columns:
  "map supplier_id (fst (generate_suppliers_data g)) = suppliers
   \<and> map supplier_sku (fst (generate_suppliers_data g)) = skus"
  by (simp add: generate_suppliers_data_def suppliers_def skus_def supplier_body_def
      np_random_def Let_def split_def)

lemma suppliers_rows_in_range:
  assumes "unit_draws g"
  shows "unit_draws (snd (generate_suppliers_data g))
         \<and> (\<forall>r\<in>set (fst (generate_suppliers_data g)).
               2 \<le> avg_lead_time_wk r \<and> avg_lead_time_wk r < 5
             \<and> 0.5 \<le> lead_time_std r \<and> lead_time_std r < 1.5
             \<and> 0.7 \<le> on_time_prob r \<and> on_time_prob r < 0.95)"
proof -
  let ?P = "\<lambda>(x::nat \<times> string) r. 2 \<le> avg_lead_time_wk r \<and> avg_lead_time_wk r < 5
             \<and> 0.5 \<le> lead_time_std r \<and> lead_time_std r < 1.5
             \<and> 0.7 \<le> on_time_prob r \<and> on_time_prob r < 0.95"
  have "unit_draws (snd (for_rng supplier_body (enumerate 0 suppliers) g))
        \<and> map (\<lambda>r. ()) (fst (for_rng supplier_body (enumerate 0 suppliers) g))
            = concat (map (\<lambda>x. [()]) (enumerate 0 suppliers))
        \<and> (\<forall>r\<in>set (fst (for_rng supplier_body (enumerate 0 suppliers) g)).
              \<exists>x\<in>set (enumerate 0 suppliers). ?P x r)"
  proof (rule for_rng_map[where I = unit_draws and P = ?P])
    fix x g
    assume "unit_draws g"
    from supplier_body_row[OF this, of x]
    show "unit_draws (snd (supplier_body x g))
          \<and> map (\<lambda>r. ()) (fst (supplier_body x g)) = [()]
          \<and> (\<forall>r\<in>set (fst (supplier_body x g)). ?P x r)"
      by (simp add: supplier_body_def split_def Let_def)
  qed (rule assms)
  then show ?thesis
    unfolding generate_suppliers_data_def by blast
qed


lemma suppliers_sconst0:
  "generate_suppliers_data (sconst 0) =
     ([\<lparr>supplier_id = ''SUP001'', supplier_sku = ''SKU001_Snacks'', avg_lead_time_wk = 2,
         lead_time_std = 0.5, on_time_prob = 0.7\<rparr>,
       \<lparr>supplier_id = ''SUP002'', supplier_sku = ''SKU002_Beverages'', avg_lead_time_wk = 2,
         lead_time_std = 0.5, on_time_prob = 0.7\<rparr>,
       \<lparr>supplier_id = ''SUP003'', supplier_sku = ''SKU003_Cheese'', avg_lead_time_wk = 2,
         lead_time_std = 0.5, on_time_prob = 0.7\<rparr>,
       \<lparr>supplier_id = ''SUP004'', supplier_sku = ''SKU004_Bakery'', avg_lead_time_wk = 2,
         lead_time_std = 0.5, on_time_prob = 0.7\<rparr>,
       \<lparr>supplier_id = ''SUP005'', supplier_sku = ''SKU005_Frozen'', avg_lead_time_wk = 2,
         lead_time_std = 0.5, on_time_prob = 0.7\<rparr>], sconst 0)"
  by (simp add: generate_suppliers_data_def suppliers_def skus_def supplier_body_def
      np_random_def)

text \<open>
  On the stream of zeros every supplier delivers in every release week of the loop, one
  week later.
\<close>

lemma deliveries_sconst0_member:
  assumes "wk \<in> {1..98}"
    and "supplier \<in> set suppliers_df"
    and "\<forall>s\<in>set suppliers_df. 1 < avg_lead_time_wk s - lead_time_std s
                               \<and> avg_lead_time_wk s - lead_time_std s < 2"
  shows "\<lparr>week_release = wk, week_arrival = wk + 1, delivery_sku = supplier_sku supplier,
          qty = 200, delivery_supplier_id = supplier_id supplier\<rparr>
         \<in> set (fst (generate_deliveries_data suppliers_df (sconst 0)))"
proof -
  define z :: rng where "z = sconst 0"
  have z: "shd z = 0" "stl z = z"
    by (simp_all add: z_def)
  let ?I = "\<lambda>g::rng. g = z"
  let ?wks = "py_range 1 (weeks - 5)"
  have wks: "set ?wks = {1..98}"
    by (simp add: set_py_range weeks_def)
  have body: "\<And>w s g. w \<in> set ?wks \<Longrightarrow> s \<in> set suppliers_df \<Longrightarrow> ?I g \<Longrightarrow>
      delivery_body w s g =
        ([\<lparr>week_release = w, week_arrival = w + 1, delivery_sku = supplier_sku s,
           qty = 200, delivery_supplier_id = supplier_id s\<rparr>], z)"
    using assms(3) wks by (simp add: delivery_body_zeros[OF z])
  have inner_state: "\<And>w g. w \<in> set ?wks \<Longrightarrow> ?I g \<Longrightarrow>
      ?I (snd (for_rng (delivery_body w) suppliers_df g))"
  proof -
    fix w g
    assume w: "w \<in> set ?wks" and g: "?I g"
    have "?I (snd (for_rng (delivery_body w) suppliers_df g))
          \<and> map (\<lambda>r. ()) (fst (for_rng (delivery_body w) suppliers_df g))
              = concat (map (\<lambda>s. [()]) suppliers_df)
          \<and> (\<forall>r\<in>set (fst (for_rng (delivery_body w) suppliers_df g)).
                \<exists>s\<in>set suppliers_df. True)"
      by (rule for_rng_map[where I = ?I]) (simp_all add: body[OF w] g)
    then show "?I (snd (for_rng (delivery_body w) suppliers_df g))" by blast
  qed
  from assms(1) wks have w: "wk \<in> set ?wks" by simp
  have "\<exists>g'. ?I g' \<and> set (fst (for_rng (delivery_body wk) suppliers_df g'))
                 \<subseteq> set (fst (for_rng (\<lambda>w. for_rng (delivery_body w) suppliers_df) ?wks z))"
    by (rule for_rng_reaches[where I = ?I, OF _ _ w]) (simp_all add: inner_state)
  then have outer: "set (fst (for_rng (delivery_body wk) suppliers_df z))
                 \<subseteq> set (fst (generate_deliveries_data suppliers_df z))"
    by (auto simp: generate_deliveries_data_def)
  have "\<exists>g'. ?I g' \<and> set (fst (delivery_body wk supplier g'))
                 \<subseteq> set (fst (for_rng (delivery_body wk) suppliers_df z))"
    by (rule for_rng_reaches[where I = ?I, OF _ _ assms(2)]) (simp_all add: body[OF w])
  then have "set (fst (delivery_body wk supplier z))
                 \<subseteq> set (fst (for_rng (delivery_body wk) suppliers_df z))"
    by auto
  with outer body[OF w assms(2)] have
    "\<lparr>week_release = wk, week_arrival = wk + 1, delivery_sku = supplier_sku supplier,
      qty = 200, delivery_supplier_id = supplier_id supplier\<rparr>
     \<in> set (fst (generate_deliveries_data suppliers_df z))"
    by auto
  then show ?thesis
    unfolding z_def .
qed

section \<open>The loops of calculate_baseline_forecast\<close>

lemma for_raising_Inr_rows:
  assumes "for_raising body xs = Inr rows" and "r \<in> set rows"
  shows "\<exists>x\<in>set xs. \<exists>ys. body x = Inr ys \<and> r \<in> set ys"
  using assms
proof (induction xs arbitrary: rows)
  case Nil
  then show ?case by simp
next
  case (Cons y ys)
  from Cons.prems(1) obtain rs zs where b: "body y = Inr rs" and l: "for_raising body ys = Inr zs"
    and rows: "rows = rs @ zs"
    by (auto split: sum.splits)
  from Cons.prems(2) rows have "r \<in> set rs \<or> r \<in> set zs" by simp
  then show ?case
  proof
    assume "r \<in> set rs"
    with b show ?thesis by auto
  next
    assume "r \<in> set zs"
    from Cons.IH[OF l this] show ?thesis by auto
  qed
qed

lemma for_raising_Inr_body:
  assumes "for_raising body xs = Inr rows" and "x \<in> set xs"
  shows "\<exists>ys. body x = Inr ys \<and> set ys \<subseteq> set rows"
  using assms
proof (induction xs arbitrary: rows)
  case Nil
  then show ?case by simp
next
  case (Cons y ys)
  from Cons.prems(1) obtain rs zs where b: "body y = Inr rs" and l: "for_raising body ys = Inr zs"
    and rows: "rows = rs @ zs"
    by (auto split: sum.splits)
  show ?case
  proof (cases "x = y")
    case True
    with b rows show ?thesis by auto
  next
    case False
    with Cons.prems(2) have "x \<in> set ys" by simp
    from Cons.IH[OF l this] rows show ?thesis by auto
  qed
qed

lemma for_raising_returns:
  assumes "\<And>x. x \<in> set xs \<Longrightarrow> \<exists>ys. body x = Inr ys"
  shows "\<exists>rows. for_raising body xs = Inr rows"
  using assms
proof (induction xs)
  case Nil
  then show ?case by simp
next
  case (Cons y ys)
  from Cons.prems[of y] obtain rs where b: "body y = Inr rs" by auto
  from Cons.IH Cons.prems obtain zs where "for_raising body ys = Inr zs" by auto
  with b show ?case by simp
qed

text \<open>The rows of one (week, SKU, location) triple.\<close>

lemma baseline_body_cases:
  "baseline_body a wk s d = Inl IndexError
   \<or> baseline_body a wk s d = Inr []
   \<or> (\<exists>bp. baseline_body a wk s d = Inr [bp])"
  by (simp add: baseline_body_def Let_def split: list.splits)

lemma calculate_Inr_body:
  assumes "calculate_baseline_forecast a = Inr (b, p)"
    and "wk \<in> {5..104}" and "s \<in> set skus" and "d \<in> set dcs"
  shows "\<exists>ys. baseline_body a wk s d = Inr ys \<and> fst ` set ys \<subseteq> set b \<and> snd ` set ys \<subseteq> set p"
proof -
  let ?dloop = "\<lambda>wk s. for_raising (\<lambda>d. baseline_body a wk s d) dcs"
  let ?sloop = "\<lambda>wk. for_raising (\<lambda>s. ?dloop wk s) skus"
  from assms(1) obtain rows where rows: "for_raising ?sloop (py_range 5 (weeks + 1)) = Inr rows"
    and b: "b = map fst rows" and p: "p = map snd rows"
    by (auto simp: calculate_baseline_forecast_def split: sum.splits)
  from assms(2) have "wk \<in> set (py_range 5 (weeks + 1))"
    by (simp add: set_py_range weeks_def)
  from for_raising_Inr_body[OF rows this]
  obtain r1 where r1: "?sloop wk = Inr r1" "set r1 \<subseteq> set rows" by auto
  from for_raising_Inr_body[OF r1(1) assms(3)]
  obtain r2 where r2: "?dloop wk s = Inr r2" "set r2 \<subseteq> set r1" by auto
  from for_raising_Inr_body[OF r2(1) assms(4)]
  obtain ys where ys: "baseline_body a wk s d = Inr ys" "set ys \<subseteq> set r2" by auto
  from ys(2) r2(2) r1(2) have "set ys \<subseteq> set rows" by blast
  with ys(1) b p show ?thesis by auto
qed

lemma calculate_Inr_rows:
  assumes "calculate_baseline_forecast a = Inr (b, p)"
  shows "\<exists>rows. b = map fst rows \<and> p = map snd rows
           \<and> (\<forall>bp\<in>set rows. \<exists>wk\<in>{5..104}. \<exists>s\<in>set skus. \<exists>d\<in>set dcs.
                  baseline_body a wk s d = Inr [bp])"
proof -
  let ?dloop = "\<lambda>wk s. for_raising (\<lambda>d. baseline_body a wk s d) dcs"
  let ?sloop = "\<lambda>wk. for_raising (\<lambda>s. ?dloop wk s) skus"
  from assms(1) obtain rows where rows: "for_raising ?sloop (py_range 5 (weeks + 1)) = Inr rows"
    and b: "b = map fst rows" and p: "p = map snd rows"
    by (auto simp: calculate_baseline_forecast_def split: sum.splits)
  have "\<exists>wk\<in>{5..104}. \<exists>s\<in>set skus. \<exists>d\<in>set dcs. baseline_body a wk s d = Inr [bp]"
    if "bp \<in> set rows" for bp
  proof -
    from for_raising_Inr_rows[OF rows that]
    obtain wk r1 where wk: "wk \<in> set (py_range 5 (weeks + 1))" "?sloop wk = Inr r1" "bp \<in> set r1"
      by auto
    from for_raising_Inr_rows[OF wk(2,3)]
    obtain s r2 where s: "s \<in> set skus" "?dloop wk s = Inr r2" "bp \<in> set r2" by auto
    from for_raising_Inr_rows[OF s(2,3)]
    obtain d ys where d: "d \<in> set dcs" "baseline_body a wk s d = Inr ys" "bp \<in> set ys" by auto
    from baseline_body_cases[of a wk s d] d(2,3) have "baseline_body a wk s d = Inr [bp]"
      by auto
    moreover from wk(1) have "wk \<in> {5..104}"
      by (simp add: set_py_range weeks_def)
    ultimately show ?thesis
      using s(1) d(1) by blast
  qed
  with b p show ?thesis by blast
qed

lemma calculate_returns:
  assumes "\<And>wk s d. wk \<in> {5..104} \<Longrightarrow> s \<in> set skus \<Longrightarrow> d \<in> set dcs \<Longrightarrow>
             4 \<le> length (last_four_of a wk s d) \<Longrightarrow> actuals_of a wk s d \<noteq> []"
  shows "\<exists>b p. calculate_baseline_forecast a = Inr (b, p)"
proof -
  let ?dloop = "\<lambda>wk s. for_raising (\<lambda>d. baseline_body a wk s d) dcs"
  let ?sloop = "\<lambda>wk. for_raising (\<lambda>s. ?dloop wk s) skus"
  have body: "\<exists>ys. baseline_body a wk s d = Inr ys"
    if "wk \<in> {5..104}" "s \<in> set skus" "d \<in> set dcs" for wk s d
  proof (cases "4 \<le> length (last_four_of a wk s d)")
    case True
    from assms[OF that True] show ?thesis
      using True by (cases "actuals_of a wk s d") (simp_all add: baseline_body_def Let_def)
  next
    case False
    then show ?thesis
      by (simp add: baseline_body_def Let_def)
  qed
  have "\<exists>rows. for_raising ?sloop (py_range 5 (weeks + 1)) = Inr rows"
  proof (rule for_raising_returns)
    fix wk
    assume "wk \<in> set (py_range 5 (weeks + 1))"
    then have wk: "wk \<in> {5..104}" by (simp add: set_py_range weeks_def)
    show "\<exists>ys. ?sloop wk = Inr ys"
    proof (rule for_raising_returns)
      fix s
      assume s: "s \<in> set skus"
      show "\<exists>ys. ?dloop wk s = Inr ys"
        by (rule for_raising_returns) (rule body[OF wk s])
    qed
  qed
  then show ?thesis
    by (auto simp: calculate_baseline_forecast_def)
qed

section \<open>The forecast table\<close>

lemma py_int_ge:
  assumes "real_of_int n \<le> x" and "0 \<le> n"
  shows "n \<le> py_int x"
proof -
  from assms have "0 \<le> x" by linarith
  then have "py_int x = \<lfloor>x\<rfloor>" by (simp add: py_int_def)
  with assms(1) show ?thesis by (simp add: le_floor_iff)
qed

lemma sku_multiplier_defined:
  assumes "s \<in> set skus"
  shows "\<exists>m. sku_multipliers s = Some m"
proof -
  from assms have "s = ''SKU001_Snacks'' \<or> s = ''SKU002_Beverages'' \<or> s = ''SKU003_Cheese''
      \<or> s = ''SKU004_Bakery'' \<or> s = ''SKU005_Frozen''"
    by (simp add: skus_def)
  then have "sku_multipliers s \<noteq> None"
    by (elim disjE) (simp_all add: sku_multipliers_def)
  then show ?thesis by blast
qed

lemma base_demand_returns:
  assumes "s \<in> set skus"
  shows "\<exists>v. generate_base_demand wk s g = Inr (v, stl g) \<and> 50 \<le> v"
proof -
  from sku_multiplier_defined[OF assms] obtain m where m: "sku_multipliers s = Some m" ..
  show ?thesis
    unfolding generate_base_demand_def np_random_def Let_def
    by (simp only: m option.case prod.case) (rule exI, rule conjI, rule refl, rule max.cobounded1)
qed

lemma forecast_body_row:
  assumes "s \<in> set skus" and "u \<longrightarrow> unit_draws g"
  shows "\<exists>ys g'. forecast_body wk s d g = Inr (ys, g') \<and> (u \<longrightarrow> unit_draws g')
           \<and> map key_of ys = [(wk, s, d)]
           \<and> (\<forall>r\<in>set ys. u \<longrightarrow> 50 \<le> forecast_qty r)"
proof -
  from base_demand_returns[OF assms(1)]
  obtain v where v: "generate_base_demand wk s g = Inr (v, stl g)" "50 \<le> v" by blast
  obtain r g2 where d2: "np_random (stl g) = (r, g2)" by (cases "np_random (stl g)")
  have g1: "u \<longrightarrow> unit_draws (stl g)"
    using assms(2) unit_draws_step[of g "shd g" "stl g"] by (simp add: np_random_def)
  have r: "u \<longrightarrow> 0 \<le> r \<and> unit_draws g2"
    using g1 unit_draws_step[OF _ d2] by blast
  show ?thesis
  proof (cases "wk \<in> set festival_weeks")
    case True
    have "u \<longrightarrow> 50 \<le> py_int (v * (1 + (0.4 + r * 0.1)))"
    proof
      assume u
      with r have "0 \<le> r" by simp
      then have "1 \<le> 1 + (0.4 + r * 0.1)" by simp
      with v(2) have "50 * 1 \<le> v * (1 + (0.4 + r * 0.1))"
        by (intro mult_mono) simp_all
      then show "50 \<le> py_int (v * (1 + (0.4 + r * 0.1)))"
        by (intro py_int_ge) simp_all
    qed
    with True v r show ?thesis
      by (simp add: forecast_body_def d2 key_of_def)
  next
    case False
    have "50 \<le> py_int v"
      using v(2) by (intro py_int_ge) simp_all
    with False v g1 show ?thesis
      by (simp add: forecast_body_def key_of_def)
  qed
qed

lemma generate_forecast_data_rows:
  assumes "u \<longrightarrow> unit_draws g"
  shows "\<exists>rows g'. generate_forecast_data g = Inr (rows, g') \<and> (u \<longrightarrow> unit_draws g')
           \<and> map key_of rows = loop_keys (py_range 1 (weeks + 1))
           \<and> (\<forall>r\<in>set rows. u \<longrightarrow> 50 \<le> forecast_qty r)"
proof -
  let ?I = "\<lambda>g. u \<longrightarrow> unit_draws g"
  let ?P = "\<lambda>r::forecast_row. u \<longrightarrow> 50 \<le> forecast_qty r"
  let ?Kd = "\<lambda>wk s d. [(wk, s, d)]"
  let ?Ks = "\<lambda>wk s. concat (map (?Kd wk s) dcs)"
  let ?Kw = "\<lambda>wk. concat (map (?Ks wk) skus)"
  let ?dloop = "\<lambda>wk s. for_rng_raising (\<lambda>d. forecast_body wk s d) dcs"
  let ?sloop = "\<lambda>wk. for_rng_raising (?dloop wk) skus"
  have inner: "\<exists>ys g'. ?dloop wk s g = Inr (ys, g') \<and> ?I g' \<and> map key_of ys = ?Ks wk s
                 \<and> (\<forall>r\<in>set ys. ?P r)"
    if "s \<in> set skus" "?I g" for wk s g
    by (rule for_rng_raising_map[where I = ?I and P = ?P and f = key_of and K = "?Kd wk s"
          and body = "\<lambda>d. forecast_body wk s d", OF _ that(2)])
       (rule forecast_body_row[OF that(1)])
  have middle: "\<exists>ys g'. ?sloop wk g = Inr (ys, g') \<and> ?I g' \<and> map key_of ys = ?Kw wk
                 \<and> (\<forall>r\<in>set ys. ?P r)"
    if "?I g" for wk g
    by (rule for_rng_raising_map[where I = ?I and P = ?P and f = key_of and K = "?Ks wk"
          and body = "?dloop wk", OF _ that])
       (rule inner)
  have "\<exists>rows g'. for_rng_raising ?sloop (py_range 1 (weeks + 1)) g = Inr (rows, g') \<and> ?I g'
           \<and> map key_of rows = concat (map ?Kw (py_range 1 (weeks + 1)))
           \<and> (\<forall>r\<in>set rows. ?P r)"
    by (rule for_rng_raising_map[where I = ?I and P = ?P and f = key_of and K = ?Kw
          and body = ?sloop, OF _ assms])
       (rule middle)
  then show ?thesis
    unfolding generate_forecast_data_def loop_keys_def .
qed

lemma length_loop_keys: "length (loop_keys wks) = 10 * length wks"
  by (induction wks) (simp_all add: loop_keys_def skus_def dcs_def)

lemma set_loop_keys: "set (loop_keys wks) = set wks \<times> set skus \<times> set dcs"
  by (auto simp: loop_keys_def)

lemma distinct_loop_keys:
  assumes "distinct wks"
  shows "distinct (loop_keys wks)"
  using assms
proof (induction wks)
  case Nil
  then show ?case by (simp add: loop_keys_def)
next
  case (Cons w ws)
  have split: "loop_keys (w # ws) = loop_keys [w] @ loop_keys ws"
    by (simp add: loop_keys_def)
  have one: "distinct (loop_keys [w])"
    by (simp add: loop_keys_def skus_def dcs_def)
  have "set (loop_keys [w]) \<inter> set (loop_keys ws) = {}"
    using Cons.prems by (auto simp: set_loop_keys)
  with one Cons show ?case
    unfolding split by simp
qed

lemma length_py_range: "a \<le> b \<Longrightarrow> length (py_range a b) = nat (b - a)"
  by (simp add: py_range_def)

section \<open>The actuals table\<close>

lemma actual_body_row:
  assumes "u \<longrightarrow> unit_draws g \<and> 50 \<le> forecast_qty row"
  shows "(u \<longrightarrow> unit_draws (snd (actual_body row g)))
         \<and> map key_of (fst (actual_body row g)) = [key_of row]
         \<and> (\<forall>r\<in>set (fst (actual_body row g)). u \<longrightarrow> 33 \<le> actual_qty r)"
proof -
  obtain r1 g1 where d1: "np_random g = (r1, g1)" by (cases "np_random g")
  obtain r2 g2 where d2: "np_random g1 = (r2, g2)" by (cases "np_random g1")
  define variance :: real where "variance = (if festival_flag row \<noteq> 0 then 0.3 else 0.15)"
  define a0 where "a0 = py_int (max 0 (real_of_int (forecast_qty row) * (1 + (r1 - 0.5) * 2 * variance)))"
  define a1 where "a1 = (if dc row = ''Mumbai'' then py_int (real_of_int a0 * (0.95 + r2 * 0.1))
             else py_int (real_of_int a0 * (1.0 + r2 * 0.05)))"
  have body: "actual_body row g =
      ([\<lparr>week = week row, sku = sku row, dc = dc row, actual_qty = a1\<rparr>], g2)"
    by (simp add: actual_body_def d1 d2 Let_def a1_def a0_def variance_def)
  have "unit_draws g2 \<and> 33 \<le> a1" if u
  proof -
    from that assms have g: "unit_draws g" and fq: "50 \<le> forecast_qty row" by simp_all
    from unit_draws_step[OF g d1] have r1: "0 \<le> r1" "unit_draws g1" by simp_all
    from unit_draws_step[OF r1(2) d2] have r2: "0 \<le> r2" "unit_draws g2" by simp_all
    have v: "0 \<le> variance" "variance \<le> 0.3" by (simp_all add: variance_def)
    have "- variance \<le> (r1 - 0.5) * 2 * variance"
    proof -
      have "(r1 - 0.5) * 2 * variance = r1 * (2 * variance) - variance" by (simp add: algebra_simps)
      moreover have "0 \<le> r1 * (2 * variance)" using r1(1) v(1) by simp
      ultimately show ?thesis by linarith
    qed
    with v(2) have f: "0.7 \<le> 1 + (r1 - 0.5) * 2 * variance" by linarith
    from fq have "(50::real) \<le> real_of_int (forecast_qty row)" by simp
    with f have "50 * 0.7 \<le> real_of_int (forecast_qty row) * (1 + (r1 - 0.5) * 2 * variance)"
      by (intro mult_mono) simp_all
    then have "real_of_int 35 \<le> max 0 (real_of_int (forecast_qty row) * (1 + (r1 - 0.5) * 2 * variance))"
      by simp
    then have a0: "35 \<le> a0"
      unfolding a0_def by (intro py_int_ge) simp_all
    then have a0r: "(35::real) \<le> real_of_int a0" by simp
    have "33 \<le> a1"
    proof (cases "dc row = ''Mumbai''")
      case True
      have "0.95 \<le> 0.95 + r2 * 0.1" using r2(1) by simp
      with a0r have "35 * 0.95 \<le> real_of_int a0 * (0.95 + r2 * 0.1)"
        by (intro mult_mono) simp_all
      then have "real_of_int 33 \<le> real_of_int a0 * (0.95 + r2 * 0.1)" by simp
      then have "33 \<le> py_int (real_of_int a0 * (0.95 + r2 * 0.1))"
        by (intro py_int_ge) simp_all
      with True show ?thesis by (simp add: a1_def)
    next
      case False
      have "1 \<le> 1.0 + r2 * 0.05" using r2(1) by simp
      with a0r have "35 * 1 \<le> real_of_int a0 * (1.0 + r2 * 0.05)"
        by (intro mult_mono) simp_all
      then have "real_of_int 33 \<le> real_of_int a0 * (1.0 + r2 * 0.05)" by simp
      then have "33 \<le> py_int (real_of_int a0 * (1.0 + r2 * 0.05))"
        by (intro py_int_ge) simp_all
      with False show ?thesis by (simp add: a1_def)
    qed
    with r2(2) show ?thesis by simp
  qed
  then show ?thesis
    by (simp add: body key_of_def)
qed

lemma concat_map_single: "concat (map (\<lambda>x. [f x]) xs) = map f xs"
  by (induction xs) simp_all

lemma generate_actuals_data_rows:
  assumes "u \<longrightarrow> unit_draws g \<and> (\<forall>r\<in>set forecast_df. 50 \<le> forecast_qty r)"
  shows "map key_of (fst (generate_actuals_data forecast_df g)) = map key_of forecast_df
         \<and> (\<forall>r\<in>set (fst (generate_actuals_data forecast_df g)). u \<longrightarrow> 33 \<le> actual_qty r)"
proof -
  let ?I = "\<lambda>g. u \<longrightarrow> unit_draws g"
  let ?P = "\<lambda>(x::forecast_row) (r::actual_row). u \<longrightarrow> 33 \<le> actual_qty r"
  have "?I (snd (for_rng actual_body forecast_df g))
        \<and> map key_of (fst (for_rng actual_body forecast_df g))
            = concat (map (\<lambda>x. [key_of x]) forecast_df)
        \<and> (\<forall>r\<in>set (fst (for_rng actual_body forecast_df g)). \<exists>x\<in>set forecast_df. ?P x r)"
  proof (rule for_rng_map[where I = ?I and P = ?P and f = key_of and K = "\<lambda>x. [key_of x]"
          and body = actual_body])
    fix x g
    assume "x \<in> set forecast_df" and "?I g"
    with assms have "u \<longrightarrow> unit_draws g \<and> 50 \<le> forecast_qty x" by blast
    from actual_body_row[OF this]
    show "?I (snd (actual_body x g)) \<and> map key_of (fst (actual_body x g)) = [key_of x]
          \<and> (\<forall>r\<in>set (fst (actual_body x g)). ?P x r)" .
  next
    from assms show "?I g" by blast
  qed
  then show ?thesis
    unfolding generate_actuals_data_def concat_map_single by blast
qed

lemma count_distinct_key:
  assumes "distinct (map f xs)" and "x \<in> set xs"
  shows "length (filter (\<lambda>y. f y = f x) xs) = 1"
  using assms
proof (induction xs)
  case Nil
  then show ?case by simp
next
  case (Cons y ys)
  show ?case
  proof (cases "f y = f x")
    case True
    with Cons.prems(1) have "f x \<notin> f ` set ys" by simp
    then have "\<forall>z\<in>set ys. f z \<noteq> f x" by (metis imageI)
    then have "filter (\<lambda>z. f z = f x) ys = []" by (simp add: filter_empty_conv)
    with True show ?thesis by simp
  next
    case False
    with Cons.prems(2) have "x \<in> set ys" by auto
    with Cons.IH Cons.prems(1) False show ?thesis by simp
  qed
qed

lemma count_key_in_map:
  assumes "distinct (map f xs)" and "map h ys = map f xs" and "x \<in> set xs"
  shows "length (filter (\<lambda>y. h y = f x) ys) = 1"
proof -
  have "length (filter (\<lambda>y. h y = f x) ys) = length (filter (\<lambda>k. k = f x) (map h ys))"
    by (simp add: filter_map comp_def)
  also have "\<dots> = length (filter (\<lambda>k. k = f x) (map f xs))"
    by (simp only: assms(2))
  also have "\<dots> = length (filter (\<lambda>y. f y = f x) xs)"
    by (simp add: filter_map comp_def)
  also have "\<dots> = 1"
    by (rule count_distinct_key[OF assms(1,3)])
  finally show ?thesis .
qed

lemma distinct_forecast_weeks: "distinct (py_range 1 (weeks + 1))"
  by (simp add: py_range_def)

section \<open>The calculation on a complete history\<close>

lemma filter_upto_window:
  assumes "l \<le> a" and "b \<le> h"
  shows "filter (\<lambda>w. a \<le> w \<and> w \<le> b) [l..h] = [a..b]"
proof (rule sorted_distinct_set_unique)
  show "sorted (filter (\<lambda>w. a \<le> w \<and> w \<le> b) [l..h])"
    by (rule sorted_wrt_filter) simp
  show "set (filter (\<lambda>w. a \<le> w \<and> w \<le> b) [l..h]) = set [a..b]"
    using assms by auto
qed simp_all

lemma last_four_of_history:
  assumes "wk \<in> {5..104}"
  shows "last_four_of (history s d q) wk s' d' =
           (if s = s' \<and> d = d' then map q [wk - 4..wk - 1] else [])"
proof -
  have "filter (\<lambda>w. wk - 4 \<le> w \<and> w < wk) [1..104] = filter (\<lambda>w. wk - 4 \<le> w \<and> w \<le> wk - 1) [1..104]"
    by (rule filter_cong) auto
  also have "\<dots> = [wk - 4..wk - 1]"
    using assms by (intro filter_upto_window) auto
  finally have w: "filter (\<lambda>w. wk - 4 \<le> w \<and> w < wk) [1..104] = [wk - 4..wk - 1]" .
  show ?thesis
  proof (cases "s = s' \<and> d = d'")
    case True
    then show ?thesis
      by (simp add: last_four_of_def history_def filter_map comp_def w)
  next
    case False
    then show ?thesis
      by (auto simp: last_four_of_def history_def filter_map comp_def filter_empty_conv)
  qed
qed

lemma actuals_of_history:
  assumes "wk \<in> {1..104}"
  shows "actuals_of (history s d q) wk s d = [q wk]"
proof -
  have "filter (\<lambda>w. w = wk) [1..104] = filter (\<lambda>w. wk \<le> w \<and> w \<le> wk) [1..104]"
    by (rule filter_cong) auto
  also have "\<dots> = [wk..wk]"
    using assms by (intro filter_upto_window) auto
  finally have "filter (\<lambda>w. w = wk) [1..104] = [wk]" by simp
  then show ?thesis
    by (simp add: actuals_of_def history_def filter_map comp_def)
qed

lemma length_window: "length [wk - 4..wk - 1] = 4"
  by simp

lemma baseline_body_history:
  assumes "wk \<in> {5..104}"
  shows "baseline_body (history s d q) wk s d =
     Inr [(\<lparr>week = wk, sku = s, dc = d,
             naive_forecast = py_int (mean (map q [wk - 4..wk - 1])),
             festival_adjusted_forecast =
               py_int (mean (map q [wk - 4..wk - 1]) * (if wk \<in> set festival_weeks then 1.45 else 1)),
             actual = q wk\<rparr>,
           \<lparr>week = wk, sku = s, dc = d,
             naive_mape = np_true_divide \<bar>real_of_int (q wk) - mean (map q [wk - 4..wk - 1])\<bar> (q wk),
             festival_mape =
               np_true_divide
                 \<bar>real_of_int (q wk)
                   - mean (map q [wk - 4..wk - 1]) * (if wk \<in> set festival_weeks then 1.45 else 1)\<bar>
                 (q wk),
             is_festival = (wk \<in> set festival_weeks)\<rparr>)]"
proof -
  from assms have wk1: "wk \<in> {1..104}" by simp
  have lf: "last_four_of (history s d q) wk s d = map q [wk - 4..wk - 1]"
    by (simp add: last_four_of_history[OF assms])
  have len: "4 \<le> length (map q [wk - 4..wk - 1])"
    by simp
  show ?thesis
    unfolding baseline_body_def Let_def lf actuals_of_history[OF wk1]
    using len by (simp only: if_True list.case)
qed

lemma calculate_history_returns:
  "\<exists>b p. calculate_baseline_forecast (history s d q) = Inr (b, p)"
proof (rule calculate_returns)
  fix wk s' d'
  assume wk: "wk \<in> {5..104}"
    and four: "4 \<le> length (last_four_of (history s d q) wk s' d')"
  from four have same: "s = s' \<and> d = d'"
    by (auto simp: last_four_of_history[OF wk] split: if_splits)
  from wk have "wk \<in> {1..104}" by simp
  from actuals_of_history[OF this, of s d q] same
  show "actuals_of (history s d q) wk s' d' \<noteq> []" by simp
qed

lemma calculate_history_row:
  assumes "calculate_baseline_forecast (history s d q) = Inr (b, p)"
    and "wk \<in> {5..104}" and "s \<in> set skus" and "d \<in> set dcs"
    and "baseline_body (history s d q) wk s d = Inr [(br, pr)]"
  shows "br \<in> set b \<and> pr \<in> set p"
proof -
  from calculate_Inr_body[OF assms(1-4)] assms(5)
  have "fst ` set [(br, pr)] \<subseteq> set b \<and> snd ` set [(br, pr)] \<subseteq> set p" by auto
  then show ?thesis by simp
qed

section \<open>The rows of the baseline and performance tables\<close>

lemma baseline_body_emitted:
  assumes "baseline_body a wk s d = Inr [(br, pr)]"
  shows "4 \<le> length (last_four_of a wk s d)
     \<and> (\<exists>av rest. actuals_of a wk s d = av # rest
          \<and> br = \<lparr>week = wk, sku = s, dc = d,
                   naive_forecast = py_int (mean (last_four_of a wk s d)),
                   festival_adjusted_forecast =
                     py_int (mean (last_four_of a wk s d)
                             * (if wk \<in> set festival_weeks then 1.45 else 1)),
                   actual = av\<rparr>
          \<and> pr = \<lparr>week = wk, sku = s, dc = d,
                   naive_mape =
                     np_true_divide \<bar>real_of_int av - mean (last_four_of a wk s d)\<bar> av,
                   festival_mape =
                     np_true_divide
                       \<bar>real_of_int av - mean (last_four_of a wk s d)
                           * (if wk \<in> set festival_weeks then 1.45 else 1)\<bar> av,
                   is_festival = (wk \<in> set festival_weeks)\<rparr>)"
proof (cases "4 \<le> length (last_four_of a wk s d)")
  case False
  with assms show ?thesis
    by (simp add: baseline_body_def Let_def)
next
  case True
  show ?thesis
  proof (cases "actuals_of a wk s d")
    case Nil
    with assms True show ?thesis
      by (simp add: baseline_body_def Let_def)
  next
    case (Cons av rest)
    with assms True show ?thesis
      unfolding baseline_body_def Let_def by (simp only: if_True list.case) auto
  qed
qed

lemma calculate_baseline_row:
  assumes "calculate_baseline_forecast a = Inr (b, p)" and "r \<in> set b"
  shows "week r \<in> {5..104} \<and> sku r \<in> set skus \<and> dc r \<in> set dcs
     \<and> 4 \<le> length (last_four_of a (week r) (sku r) (dc r))
     \<and> naive_forecast r = py_int (mean (last_four_of a (week r) (sku r) (dc r)))
     \<and> festival_adjusted_forecast r =
         py_int (mean (last_four_of a (week r) (sku r) (dc r))
                 * (if week r \<in> set festival_weeks then 1.45 else 1))
     \<and> (\<exists>rest. actuals_of a (week r) (sku r) (dc r) = actual r # rest)"
proof -
  from calculate_Inr_rows[OF assms(1)] obtain rows where rows: "b = map fst rows"
    and body: "\<forall>bp\<in>set rows. \<exists>wk\<in>{5..104}. \<exists>s\<in>set skus. \<exists>d\<in>set dcs.
                  baseline_body a wk s d = Inr [bp]"
    by blast
  from assms(2) rows obtain pr where "(r, pr) \<in> set rows" by auto
  with body obtain wk s d where rng: "wk \<in> {5..104}" "s \<in> set skus" "d \<in> set dcs"
    and emitted: "baseline_body a wk s d = Inr [(r, pr)]"
    by blast
  from baseline_body_emitted[OF emitted] obtain av rest
    where four: "4 \<le> length (last_four_of a wk s d)"
      and av: "actuals_of a wk s d = av # rest"
      and r: "r = \<lparr>week = wk, sku = s, dc = d,
                   naive_forecast = py_int (mean (last_four_of a wk s d)),
                   festival_adjusted_forecast =
                     py_int (mean (last_four_of a wk s d)
                             * (if wk \<in> set festival_weeks then 1.45 else 1)),
                   actual = av\<rparr>"
    by blast
  have sel: "week r = wk" "sku r = s" "dc r = d" "actual r = av"
    "naive_forecast r = py_int (mean (last_four_of a wk s d))"
    "festival_adjusted_forecast r =
       py_int (mean (last_four_of a wk s d) * (if wk \<in> set festival_weeks then 1.45 else 1))"
    by (simp_all add: r)
  show ?thesis
    unfolding sel using rng four av by blast
qed

lemma calculate_performance_row:
  assumes "calculate_baseline_forecast a = Inr (b, p)" and "r \<in> set p"
  shows "week r \<in> {5..104} \<and> sku r \<in> set skus \<and> dc r \<in> set dcs
     \<and> 4 \<le> length (last_four_of a (week r) (sku r) (dc r))
     \<and> is_festival r = (week r \<in> set festival_weeks)
     \<and> (\<exists>av rest. actuals_of a (week r) (sku r) (dc r) = av # rest
          \<and> naive_mape r =
              np_true_divide \<bar>real_of_int av - mean (last_four_of a (week r) (sku r) (dc r))\<bar> av
          \<and> festival_mape r =
              np_true_divide
                \<bar>real_of_int av - mean (last_four_of a (week r) (sku r) (dc r))
                    * (if week r \<in> set festival_weeks then 1.45 else 1)\<bar> av)"
proof -
  from calculate_Inr_rows[OF assms(1)] obtain rows where rows: "p = map snd rows"
    and body: "\<forall>bp\<in>set rows. \<exists>wk\<in>{5..104}. \<exists>s\<in>set skus. \<exists>d\<in>set dcs.
                  baseline_body a wk s d = Inr [bp]"
    by blast
  from assms(2) rows obtain br where "(br, r) \<in> set rows" by auto
  with body obtain wk s d where rng: "wk \<in> {5..104}" "s \<in> set skus" "d \<in> set dcs"
    and emitted: "baseline_body a wk s d = Inr [(br, r)]"
    by blast
  from baseline_body_emitted[OF emitted] obtain av rest
    where four: "4 \<le> length (last_four_of a wk s d)"
      and av: "actuals_of a wk s d = av # rest"
      and r: "r = \<lparr>week = wk, sku = s, dc = d,
                   naive_mape =
                     np_true_divide \<bar>real_of_int av - mean (last_four_of a wk s d)\<bar> av,
                   festival_mape =
                     np_true_divide
                       \<bar>real_of_int av - mean (last_four_of a wk s d)
                           * (if wk \<in> set festival_weeks then 1.45 else 1)\<bar> av,
                   is_festival = (wk \<in> set festival_weeks)\<rparr>"
    by blast
  have sel: "week r = wk" "sku r = s" "dc r = d" "is_festival r = (wk \<in> set festival_weeks)"
    "naive_mape r = np_true_divide \<bar>real_of_int av - mean (last_four_of a wk s d)\<bar> av"
    "festival_mape r =
       np_true_divide
         \<bar>real_of_int av - mean (last_four_of a wk s d)
             * (if wk \<in> set festival_weeks then 1.45 else 1)\<bar> av"
    by (simp_all add: r)
  show ?thesis
    unfolding sel using rng four av by blast
qed

lemma example_numbers:
  "py_int (mean [480, 510, 495, 505]) = 497"
  "py_int (mean [480, 510, 495, 505] * 1.45) = 721"
  "round (497 * 1.45 :: real) = 721"
  "mean [480, 510, 495, 505] = 497.5"
  by (simp_all add: py_int_def mean_def round_def)

section \<open>Deliveries: every release week and supplier\<close>





section \<open>Claims on the supplier and delivery tables\<close>

text \<open>
  C10.  For every random stream (every stream of draws from the unit interval),
  \<^verbatim>\<open>generate_suppliers_data\<close> returns exactly 5 rows; the supplier column is the
  list of suppliers and the SKU column is the list of SKUs, both without repetition, so
  each SKU has one row and one supplier; every on-time probability lies between 0.70
  and 0.95.
\<close>

theorem suppliers_five_rows_one_per_sku:
  assumes "unit_draws g"
  shows "length (fst (generate_suppliers_data g)) = 5
         \<and> map supplier_id (fst (generate_suppliers_data g)) = suppliers
         \<and> map supplier_sku (fst (generate_suppliers_data g)) = skus
         \<and> distinct suppliers \<and> distinct skus
         \<and> (\<forall>r\<in>set (fst (generate_suppliers_data g)).
               0.70 \<le> on_time_prob r \<and> on_time_prob r \<le> 0.95)"
proof -
  have cols: "map supplier_id (fst (generate_suppliers_data g)) = suppliers"
    "map supplier_sku (fst (generate_suppliers_data g)) = skus"
    using suppliers_columns[of g] by simp_all
  have "length (map supplier_id (fst (generate_suppliers_data g))) = 5"
    unfolding cols by (simp add: suppliers_def)
  then have len: "length (fst (generate_suppliers_data g)) = 5" by simp
  have dist: "distinct suppliers" "distinct skus"
    by (simp_all add: suppliers_def skus_def)
  have "\<forall>r\<in>set (fst (generate_suppliers_data g)).
          0.70 \<le> on_time_prob r \<and> on_time_prob r \<le> 0.95"
    using suppliers_rows_in_range[OF assms] by fastforce
  with len cols dist show ?thesis by blast
qed

theorem suppliers_five_rows_one_per_sku_witness:
  "unit_draws (sconst 0)
   \<and> length (fst (generate_suppliers_data (sconst 0))) = 5
   \<and> map supplier_sku (fst (generate_suppliers_data (sconst 0))) = skus
   \<and> map on_time_prob (fst (generate_suppliers_data (sconst 0))) = [0.7, 0.7, 0.7, 0.7, 0.7]"
  using suppliers_five_rows_one_per_sku[OF unit_draws_sconst0] unit_draws_sconst0
  by (simp add: suppliers_sconst0)

text \<open>
  C5.  For every random stream and every supplier table, every delivery row has
  \<open>week_arrival \<ge> week_release\<close>, the two differing by a lead time of at least 1, and
  \<open>week_arrival \<le> 104\<close>.
\<close>

theorem deliveries_arrival_after_release_within_horizon:
  "\<forall>r\<in>set (fst (generate_deliveries_data suppliers_df g)).
      week_release r \<le> week_arrival r \<and> 1 \<le> week_arrival r - week_release r
      \<and> week_arrival r \<le> 104"
proof
  fix r
  assume "r \<in> set (fst (generate_deliveries_data suppliers_df g))"
  from deliveries_row[OF this]
  show "week_release r \<le> week_arrival r \<and> 1 \<le> week_arrival r - week_release r
        \<and> week_arrival r \<le> 104"
    by (simp add: weeks_def)
qed

theorem deliveries_arrival_after_release_within_horizon_witness:
  "\<exists>r\<in>set (fst (generate_deliveries_data (fst (generate_suppliers_data (sconst 0)))
                  (snd (generate_suppliers_data (sconst 0))))).
      week_release r = 1 \<and> week_arrival r = 2 \<and> delivery_supplier_id r = ''SUP001''
      \<and> week_release r \<le> week_arrival r \<and> 1 \<le> week_arrival r - week_release r
      \<and> week_arrival r \<le> 104"
proof -
  let ?sup = "\<lparr>supplier_id = ''SUP001'', supplier_sku = ''SKU001_Snacks'',
               avg_lead_time_wk = 2, lead_time_std = 0.5, on_time_prob = 0.7\<rparr>"
  let ?df = "fst (generate_suppliers_data (sconst 0))"
  let ?row = "\<lparr>week_release = 1, week_arrival = 1 + 1, delivery_sku = supplier_sku ?sup,
               qty = 200, delivery_supplier_id = supplier_id ?sup\<rparr>"
  have "?row \<in> set (fst (generate_deliveries_data ?df (sconst 0)))"
    by (rule deliveries_sconst0_member) (simp_all add: suppliers_sconst0)
  then have mem: "?row \<in> set (fst (generate_deliveries_data ?df
                                    (snd (generate_suppliers_data (sconst 0)))))"
    by (simp add: suppliers_sconst0)
  from deliveries_arrival_after_release_within_horizon[rule_format, OF mem] mem
  show ?thesis
    by (intro bexI[of _ ?row]) simp_all
qed





section \<open>Claims on the forecast and actuals tables\<close>

text \<open>
  C9.  For every random stream, \<^verbatim>\<open>generate_forecast_data\<close> returns (it raises no
  KeyError) a table of exactly 104 * 5 * 2 = 1040 rows, and every \<open>forecast_qty\<close>, an
  integer, is non-negative.
\<close>

theorem forecast_1040_rows_nonnegative:
  assumes "unit_draws g"
  shows "\<exists>forecast_df g'. generate_forecast_data g = Inr (forecast_df, g')
           \<and> length forecast_df = 104 * 5 * 2
           \<and> (\<forall>r\<in>set forecast_df. 0 \<le> forecast_qty r)"
proof -
  from generate_forecast_data_rows[of True g] assms
  obtain rows g' where r: "generate_forecast_data g = Inr (rows, g')"
    and keys: "map key_of rows = loop_keys (py_range 1 (weeks + 1))"
    and qty: "\<forall>r\<in>set rows. 50 \<le> forecast_qty r"
    by auto
  have "length (map key_of rows) = 1040"
    unfolding keys by (simp add: length_loop_keys length_py_range weeks_def)
  then have "length rows = 104 * 5 * 2" by simp
  moreover from qty have "\<forall>r\<in>set rows. 0 \<le> forecast_qty r" by fastforce
  ultimately show ?thesis using r by blast
qed

theorem forecast_1040_rows_nonnegative_witness:
  "unit_draws (sconst 0)
   \<and> (\<exists>forecast_df g'. generate_forecast_data (sconst 0) = Inr (forecast_df, g')
         \<and> length forecast_df = 1040
         \<and> 0 \<le> forecast_qty (hd forecast_df) \<and> 0 \<le> forecast_qty (last forecast_df))"
proof -
  from forecast_1040_rows_nonnegative[OF unit_draws_sconst0]
  obtain forecast_df g' where r: "generate_forecast_data (sconst 0) = Inr (forecast_df, g')"
    and len: "length forecast_df = 104 * 5 * 2"
    and qty: "\<forall>r\<in>set forecast_df. 0 \<le> forecast_qty r"
    by blast
  from len have "forecast_df \<noteq> []" by auto
  then have "hd forecast_df \<in> set forecast_df" "last forecast_df \<in> set forecast_df"
    by simp_all
  with qty have "0 \<le> forecast_qty (hd forecast_df)" "0 \<le> forecast_qty (last forecast_df)"
    by blast+
  with r len unit_draws_sconst0 show ?thesis by simp
qed

text \<open>
  C8.  For every random stream, \<^verbatim>\<open>generate_forecast_data\<close> returns a forecast table,
  and for every row of it exactly one row of the actuals table that
  \<^verbatim>\<open>generate_actuals_data\<close> produces from it (drawing on from the same generator) has
  the same (week, sku, dc) key.
\<close>

theorem one_actual_per_forecast_key:
  "\<exists>forecast_df g1. generate_forecast_data g = Inr (forecast_df, g1)
     \<and> (\<forall>r\<in>set forecast_df.
           length (filter (\<lambda>a. key_of a = key_of r)
                     (fst (generate_actuals_data forecast_df g1))) = 1)"
proof -
  from generate_forecast_data_rows[of False g]
  obtain rows g1 where r: "generate_forecast_data g = Inr (rows, g1)"
    and keys: "map key_of rows = loop_keys (py_range 1 (weeks + 1))"
    by auto
  have dist: "distinct (map key_of rows)"
    unfolding keys by (rule distinct_loop_keys) (rule distinct_forecast_weeks)
  have same: "map key_of (fst (generate_actuals_data rows g1)) = map key_of rows"
    using generate_actuals_data_rows[of False g1 rows] by simp
  have "\<forall>r\<in>set rows.
          length (filter (\<lambda>a. key_of a = key_of r) (fst (generate_actuals_data rows g1))) = 1"
    by (intro ballI count_key_in_map[OF dist same])
  with r show ?thesis by blast
qed

theorem one_actual_per_forecast_key_witness:
  "\<exists>forecast_df g1. generate_forecast_data (sconst 0) = Inr (forecast_df, g1)
     \<and> (\<exists>r\<in>set forecast_df. key_of r = (1, ''SKU001_Snacks'', ''Mumbai'')
           \<and> length (filter (\<lambda>a. key_of a = (1, ''SKU001_Snacks'', ''Mumbai''))
                       (fst (generate_actuals_data forecast_df g1))) = 1)"
proof -
  from one_actual_per_forecast_key[of "sconst 0"]
  obtain forecast_df g1 where r: "generate_forecast_data (sconst 0) = Inr (forecast_df, g1)"
    and one: "\<forall>r\<in>set forecast_df.
           length (filter (\<lambda>a. key_of a = key_of r)
                     (fst (generate_actuals_data forecast_df g1))) = 1"
    by blast
  from generate_forecast_data_rows[of False "sconst 0"] r
  have keys: "map key_of forecast_df = loop_keys (py_range 1 (weeks + 1))"
    by auto
  have "(1, ''SKU001_Snacks'', ''Mumbai'') \<in> set (loop_keys (py_range 1 (weeks + 1)))"
    by (simp add: set_loop_keys set_py_range weeks_def skus_def dcs_def)
  then have "(1, ''SKU001_Snacks'', ''Mumbai'') \<in> key_of ` set forecast_df"
    unfolding keys[symmetric] by simp
  then obtain row where row: "row \<in> set forecast_df"
    "key_of row = (1, ''SKU001_Snacks'', ''Mumbai'')"
    by auto
  with one have "length (filter (\<lambda>a. key_of a = (1, ''SKU001_Snacks'', ''Mumbai''))
                       (fst (generate_actuals_data forecast_df g1))) = 1"
    by fastforce
  with r row show ?thesis by blast
qed

section \<open>Claims on the baseline and performance tables\<close>

lemma length_last_four_of:
  "length (last_four_of a wk s d) =
   length (filter (\<lambda>x. wk - 4 \<le> week x \<and> week x \<le> wk - 1 \<and> sku x = s \<and> dc x = d) a)"
proof -
  have "filter (\<lambda>r. wk - 4 \<le> week r \<and> week r < wk \<and> sku r = s \<and> dc r = d) a
      = filter (\<lambda>x. wk - 4 \<le> week x \<and> week x \<le> wk - 1 \<and> sku x = s \<and> dc x = d) a"
    by (rule filter_cong) auto
  then show ?thesis
    by (simp add: last_four_of_def)
qed

text \<open>
  C7.  When \<^verbatim>\<open>calculate_baseline_forecast\<close> returns, every row of the baseline and
  of the performance table has \<open>week \<ge> 5\<close> and at least 4 rows of the actuals table lie in
  the weeks [week - 4, week - 1] for its SKU and location; a (week, sku, dc) triple with
  fewer than 4 such rows has no row in either table.
\<close>

theorem baseline_rows_need_four_prior_actuals:
  assumes "calculate_baseline_forecast actuals_df = Inr (baseline_df, performance_df)"
  shows "(\<forall>r\<in>set baseline_df. 5 \<le> week r
            \<and> 4 \<le> length (filter (\<lambda>x. week r - 4 \<le> week x \<and> week x \<le> week r - 1
                                      \<and> sku x = sku r \<and> dc x = dc r) actuals_df))
       \<and> (\<forall>r\<in>set performance_df. 5 \<le> week r
            \<and> 4 \<le> length (filter (\<lambda>x. week r - 4 \<le> week x \<and> week x \<le> week r - 1
                                      \<and> sku x = sku r \<and> dc x = dc r) actuals_df))
       \<and> (\<forall>wk s d.
             length (filter (\<lambda>x. wk - 4 \<le> week x \<and> week x \<le> wk - 1 \<and> sku x = s \<and> dc x = d)
                       actuals_df) < 4
             \<longrightarrow> (\<forall>r\<in>set baseline_df. key_of r \<noteq> (wk, s, d))
                 \<and> (\<forall>r\<in>set performance_df. key_of r \<noteq> (wk, s, d)))"
proof -
  have b: "5 \<le> week r
           \<and> 4 \<le> length (filter (\<lambda>x. week r - 4 \<le> week x \<and> week x \<le> week r - 1
                                      \<and> sku x = sku r \<and> dc x = dc r) actuals_df)"
    if "r \<in> set baseline_df" for r
    using calculate_baseline_row[OF assms that]
    by (simp add: length_last_four_of)
  have p: "5 \<le> week r
           \<and> 4 \<le> length (filter (\<lambda>x. week r - 4 \<le> week x \<and> week x \<le> week r - 1
                                      \<and> sku x = sku r \<and> dc x = dc r) actuals_df)"
    if "r \<in> set performance_df" for r
    using calculate_performance_row[OF assms that]
    by (simp add: length_last_four_of)
  have skip: "(\<forall>r\<in>set baseline_df. key_of r \<noteq> (wk, s, d))
              \<and> (\<forall>r\<in>set performance_df. key_of r \<noteq> (wk, s, d))"
    if few: "length (filter (\<lambda>x. wk - 4 \<le> week x \<and> week x \<le> wk - 1 \<and> sku x = s \<and> dc x = d)
                       actuals_df) < 4" for wk s d
  proof (intro conjI ballI notI)
    fix r
    assume "r \<in> set baseline_df" and "key_of r = (wk, s, d)"
    with b[of r] few show False by (simp add: key_of_def)
  next
    fix r
    assume "r \<in> set performance_df" and "key_of r = (wk, s, d)"
    with p[of r] few show False by (simp add: key_of_def)
  qed
  from b p skip show ?thesis by blast
qed

theorem baseline_rows_need_four_prior_actuals_witness:
  "\<exists>b p. calculate_baseline_forecast (history ''SKU002_Beverages'' ''Kolkata'' (\<lambda>wk. 100))
            = Inr (b, p)
     \<and> (\<exists>r\<in>set b. key_of r = (5, ''SKU002_Beverages'', ''Kolkata'')
           \<and> 4 \<le> length (filter (\<lambda>x. week r - 4 \<le> week x \<and> week x \<le> week r - 1
                                     \<and> sku x = sku r \<and> dc x = dc r)
                              (history ''SKU002_Beverages'' ''Kolkata'' (\<lambda>wk. 100))))
     \<and> \<not> (\<exists>r\<in>set b. key_of r = (5, ''SKU001_Snacks'', ''Kolkata''))
     \<and> \<not> (\<exists>r\<in>set p. key_of r = (5, ''SKU001_Snacks'', ''Kolkata''))"
proof -
  let ?T = "history ''SKU002_Beverages'' ''Kolkata'' (\<lambda>wk. 100)"
  from calculate_history_returns obtain b p where r: "calculate_baseline_forecast ?T = Inr (b, p)"
    by blast
  note c7 = baseline_rows_need_four_prior_actuals[OF r]
  have wk: "(5::int) \<in> {5..104}" by simp
  obtain br pr where body: "baseline_body ?T 5 ''SKU002_Beverages'' ''Kolkata'' = Inr [(br, pr)]"
    and key: "key_of br = (5, ''SKU002_Beverages'', ''Kolkata'')"
    by (simp add: baseline_body_history[OF wk] key_of_def)
  have "br \<in> set b"
    using calculate_history_row[OF r wk _ _ body] by (simp add: skus_def dcs_def)
  with c7 key have row: "\<exists>r\<in>set b. key_of r = (5, ''SKU002_Beverages'', ''Kolkata'')
           \<and> 4 \<le> length (filter (\<lambda>x. week r - 4 \<le> week x \<and> week x \<le> week r - 1
                                     \<and> sku x = sku r \<and> dc x = dc r) ?T)"
    by blast
  have "length (filter (\<lambda>x. 5 - 4 \<le> week x \<and> week x \<le> 5 - 1 \<and> sku x = ''SKU001_Snacks''
                            \<and> dc x = ''Kolkata'') ?T) < 4"
    by (simp add: history_def filter_map comp_def)
  with c7 have "(\<forall>r\<in>set b. key_of r \<noteq> (5, ''SKU001_Snacks'', ''Kolkata''))
              \<and> (\<forall>r\<in>set p. key_of r \<noteq> (5, ''SKU001_Snacks'', ''Kolkata''))"
    by blast
  with r row show ?thesis by blast
qed

text \<open>
  C1.  When \<^verbatim>\<open>calculate_baseline_forecast\<close> returns on a table whose four prior
  actuals of a (sku, location) at the festival week 8 are [480, 510, 495, 505], the
  baseline table has a row for that triple, and each such row records the naive forecast
  497 (the mean 497.5 of the four, truncated by \<^verbatim>\<open>int\<close>) and the festival-adjusted
  forecast 721, which is also round(497 * 1.45).
\<close>

theorem baseline_example_week_8:
  assumes "calculate_baseline_forecast actuals_df = Inr (baseline_df, performance_df)"
    and "s \<in> set skus" and "d \<in> set dcs"
    and "last_four_of actuals_df 8 s d = [480, 510, 495, 505]"
  shows "8 \<in> set festival_weeks
       \<and> (\<exists>r\<in>set baseline_df. key_of r = (8, s, d))
       \<and> (\<forall>r\<in>set baseline_df. key_of r = (8, s, d)
             \<longrightarrow> naive_forecast r = 497 \<and> festival_adjusted_forecast r = 721)
       \<and> py_int (mean [480, 510, 495, 505]) = 497
       \<and> round (497 * 1.45 :: real) = 721"
proof -
  have fest: "8 \<in> set festival_weeks"
    by (simp add: festival_weeks_def)
  have wk: "(8::int) \<in> {5..104}" by simp
  from calculate_Inr_body[OF assms(1) wk assms(2,3)]
  obtain ys where ys: "baseline_body actuals_df 8 s d = Inr ys"
    and sub: "fst ` set ys \<subseteq> set baseline_df"
    by blast
  have "ys \<noteq> []"
    using ys assms(4) by (auto simp: baseline_body_def Let_def split: list.splits)
  then obtain bp where bp: "bp \<in> set ys" by (cases ys) auto
  with baseline_body_cases[of actuals_df 8 s d] ys
  have "baseline_body actuals_df 8 s d = Inr [(fst bp, snd bp)]" by auto
  from baseline_body_emitted[OF this] have "key_of (fst bp) = (8, s, d)"
    by (auto simp: key_of_def)
  moreover from bp sub have "fst bp \<in> set baseline_df" by auto
  ultimately have ex: "\<exists>r\<in>set baseline_df. key_of r = (8, s, d)" by blast
  have all: "naive_forecast r = 497 \<and> festival_adjusted_forecast r = 721"
    if "r \<in> set baseline_df" "key_of r = (8, s, d)" for r
  proof -
    from that(2) have k: "week r = 8" "sku r = s" "dc r = d"
      by (simp_all add: key_of_def)
    from calculate_baseline_row[OF assms(1) that(1)]
    have nf: "naive_forecast r = py_int (mean [480, 510, 495, 505])"
      and ff: "festival_adjusted_forecast r =
                 py_int (mean [480, 510, 495, 505] * (if 8 \<in> set festival_weeks then 1.45 else 1))"
      unfolding k assms(4) by blast+
    from ff fest have "festival_adjusted_forecast r = py_int (mean [480, 510, 495, 505] * 1.45)"
      by (simp only: if_True)
    with nf show ?thesis
      by (simp only: example_numbers(1,2))
  qed
  from fest ex all example_numbers(1,3) show ?thesis
    by blast
qed

theorem baseline_example_week_8_witness:
  "\<exists>b p. calculate_baseline_forecast
            (history ''SKU001_Snacks'' ''Mumbai''
               (\<lambda>wk. if wk = 4 then 480 else if wk = 5 then 510 else if wk = 6 then 495
                     else if wk = 7 then 505 else 700)) = Inr (b, p)
     \<and> ''SKU001_Snacks'' \<in> set skus \<and> ''Mumbai'' \<in> set dcs
     \<and> last_four_of
          (history ''SKU001_Snacks'' ''Mumbai''
             (\<lambda>wk. if wk = 4 then 480 else if wk = 5 then 510 else if wk = 6 then 495
                   else if wk = 7 then 505 else 700)) 8 ''SKU001_Snacks'' ''Mumbai''
        = [480, 510, 495, 505]
     \<and> (\<exists>r\<in>set b. key_of r = (8, ''SKU001_Snacks'', ''Mumbai'')
           \<and> naive_forecast r = 497 \<and> festival_adjusted_forecast r = 721)"
proof -
  let ?q = "\<lambda>wk::int. if wk = 4 then 480 else if wk = 5 then 510 else if wk = 6 then 495
                     else if wk = 7 then 505 else (700::int)"
  let ?T = "history ''SKU001_Snacks'' ''Mumbai'' ?q"
  from calculate_history_returns obtain b p where r: "calculate_baseline_forecast ?T = Inr (b, p)"
    by blast
  have s: "''SKU001_Snacks'' \<in> set skus" and d: "''Mumbai'' \<in> set dcs"
    by (simp_all add: skus_def dcs_def)
  have wk: "(8::int) \<in> {5..104}" by simp
  have four: "last_four_of ?T 8 ''SKU001_Snacks'' ''Mumbai'' = [480, 510, 495, 505]"
    by (simp add: last_four_of_history[OF wk])
  from baseline_example_week_8[OF r s d four]
  have "\<exists>r\<in>set b. key_of r = (8, ''SKU001_Snacks'', ''Mumbai'')
           \<and> naive_forecast r = 497 \<and> festival_adjusted_forecast r = 721"
    by blast
  with r s d four show ?thesis by blast
qed

text \<open>
  C6 (as stated, refuted).  On the complete history of one SKU with the quantity 1 in
  every week, the row of the festival week 8 stores the naive forecast 1 and the
  festival-adjusted forecast \<^verbatim>\<open>int(1.45)\<close> = 1: the two are equal although
  \<open>is_festival\<close> is true, and the stored festival-adjusted forecast is not 1.45 times the
  naive forecast.
\<close>

theorem festival_week_with_equal_stored_forecasts:
  "\<exists>b p. calculate_baseline_forecast (history ''SKU001_Snacks'' ''Mumbai'' (\<lambda>wk. 1)) = Inr (b, p)
     \<and> (\<exists>r\<in>set b. \<exists>q\<in>set p.
           key_of r = (8, ''SKU001_Snacks'', ''Mumbai'') \<and> key_of q = key_of r
           \<and> is_festival q
           \<and> naive_forecast r = 1 \<and> festival_adjusted_forecast r = 1
           \<and> festival_adjusted_forecast r = naive_forecast r
           \<and> real_of_int (festival_adjusted_forecast r) \<noteq> real_of_int (naive_forecast r) * 1.45)"
proof -
  let ?T = "history ''SKU001_Snacks'' ''Mumbai'' (\<lambda>wk. 1)"
  from calculate_history_returns obtain b p where r: "calculate_baseline_forecast ?T = Inr (b, p)"
    by blast
  have wk: "(8::int) \<in> {5..104}" by simp
  have m: "mean (map (\<lambda>wk. 1) [8 - 4..8 - 1]) = 1"
    by (simp add: mean_def)
  have t: "py_int 1 = 1" "py_int (1 * 1.45) = 1"
    by (simp_all add: py_int_def)
  have fest: "8 \<in> set festival_weeks"
    by (simp add: festival_weeks_def)
  obtain br pr where body: "baseline_body ?T 8 ''SKU001_Snacks'' ''Mumbai'' = Inr [(br, pr)]"
    and br: "key_of br = (8, ''SKU001_Snacks'', ''Mumbai'')" "naive_forecast br = 1"
      "festival_adjusted_forecast br = 1"
    and pr: "key_of pr = (8, ''SKU001_Snacks'', ''Mumbai'')" "is_festival pr"
    unfolding baseline_body_history[OF wk] m
    using fest t by (simp add: key_of_def)
  have "br \<in> set b \<and> pr \<in> set p"
    using calculate_history_row[OF r wk _ _ body] by (simp add: skus_def dcs_def)
  with br pr have "\<exists>r\<in>set b. \<exists>q\<in>set p.
           key_of r = (8, ''SKU001_Snacks'', ''Mumbai'') \<and> key_of q = key_of r
           \<and> is_festival q
           \<and> naive_forecast r = 1 \<and> festival_adjusted_forecast r = 1
           \<and> festival_adjusted_forecast r = naive_forecast r
           \<and> real_of_int (festival_adjusted_forecast r) \<noteq> real_of_int (naive_forecast r) * 1.45"
    by (intro bexI[of _ br] bexI[of _ pr]) simp_all
  with r show ?thesis by blast
qed

text \<open>
  C6 (amended).  For every baseline record emitted by
  \<^verbatim>\<open>calculate_baseline_forecast\<close>, the stored naive forecast is the mean of the four
  prior actuals truncated to an integer; when the week is not a festival week the stored
  festival-adjusted forecast equals the stored naive forecast, and when it is a festival
  week it is that mean times 1.45, truncated to an integer.  The \<open>is_festival\<close> column of
  the performance table tells whether the week is a festival week.
\<close>

theorem festival_adjusted_forecast_stored:
  assumes "calculate_baseline_forecast actuals_df = Inr (baseline_df, performance_df)"
  shows "(\<forall>r\<in>set baseline_df.
            naive_forecast r = py_int (mean (last_four_of actuals_df (week r) (sku r) (dc r)))
          \<and> (week r \<notin> set festival_weeks
               \<longrightarrow> festival_adjusted_forecast r = naive_forecast r)
          \<and> (week r \<in> set festival_weeks
               \<longrightarrow> festival_adjusted_forecast r =
                     py_int (mean (last_four_of actuals_df (week r) (sku r) (dc r)) * 1.45)))
       \<and> (\<forall>q\<in>set performance_df. is_festival q \<longleftrightarrow> week q \<in> set festival_weeks)"
proof -
  have b: "naive_forecast r = py_int (mean (last_four_of actuals_df (week r) (sku r) (dc r)))
          \<and> (week r \<notin> set festival_weeks
               \<longrightarrow> festival_adjusted_forecast r = naive_forecast r)
          \<and> (week r \<in> set festival_weeks
               \<longrightarrow> festival_adjusted_forecast r =
                     py_int (mean (last_four_of actuals_df (week r) (sku r) (dc r)) * 1.45))"
    if "r \<in> set baseline_df" for r
    using calculate_baseline_row[OF assms that] by simp
  have p: "is_festival q \<longleftrightarrow> week q \<in> set festival_weeks"
    if "q \<in> set performance_df" for q
    using calculate_performance_row[OF assms that] by simp
  from b p show ?thesis by blast
qed

theorem festival_adjusted_forecast_stored_witness:
  "\<exists>b p. calculate_baseline_forecast (history ''SKU003_Cheese'' ''Kolkata'' (\<lambda>wk. 400)) = Inr (b, p)
     \<and> (\<exists>r\<in>set b. key_of r = (16, ''SKU003_Cheese'', ''Kolkata'')
           \<and> week r \<in> set festival_weeks
           \<and> naive_forecast r = 400 \<and> festival_adjusted_forecast r = 580)
     \<and> (\<exists>r\<in>set b. key_of r = (17, ''SKU003_Cheese'', ''Kolkata'')
           \<and> week r \<notin> set festival_weeks
           \<and> naive_forecast r = 400 \<and> festival_adjusted_forecast r = 400)"
proof -
  let ?T = "history ''SKU003_Cheese'' ''Kolkata'' (\<lambda>wk. 400)"
  from calculate_history_returns obtain b p where r: "calculate_baseline_forecast ?T = Inr (b, p)"
    by blast
  note c6 = festival_adjusted_forecast_stored[OF r, THEN conjunct1, rule_format]
  have s: "''SKU003_Cheese'' \<in> set skus" and d: "''Kolkata'' \<in> set dcs"
    by (simp_all add: skus_def dcs_def)
  have wk16: "(16::int) \<in> {5..104}" and wk17: "(17::int) \<in> {5..104}" by simp_all
  have fest: "16 \<in> set festival_weeks" "17 \<notin> set festival_weeks"
    by (simp_all add: festival_weeks_def)
  have lf: "last_four_of ?T 16 ''SKU003_Cheese'' ''Kolkata'' = [400, 400, 400, 400]"
    "last_four_of ?T 17 ''SKU003_Cheese'' ''Kolkata'' = [400, 400, 400, 400]"
    by (simp_all add: last_four_of_history[OF wk16] last_four_of_history[OF wk17])
  have num: "py_int (mean [400, 400, 400, 400]) = 400"
    "py_int (mean [400, 400, 400, 400] * 1.45) = 580"
    by (simp_all add: mean_def py_int_def)
  obtain br16 pr16 where body16: "baseline_body ?T 16 ''SKU003_Cheese'' ''Kolkata'' = Inr [(br16, pr16)]"
    and k16: "week br16 = 16" "sku br16 = ''SKU003_Cheese''" "dc br16 = ''Kolkata''"
    unfolding baseline_body_history[OF wk16] by simp
  obtain br17 pr17 where body17: "baseline_body ?T 17 ''SKU003_Cheese'' ''Kolkata'' = Inr [(br17, pr17)]"
    and k17: "week br17 = 17" "sku br17 = ''SKU003_Cheese''" "dc br17 = ''Kolkata''"
    unfolding baseline_body_history[OF wk17] by simp
  have m16: "br16 \<in> set b"
    using calculate_history_row[OF r wk16 s d body16] by simp
  have m17: "br17 \<in> set b"
    using calculate_history_row[OF r wk17 s d body17] by simp
  from c6[OF m16] fest(1)
  have v16: "naive_forecast br16 = 400 \<and> festival_adjusted_forecast br16 = 580"
    unfolding k16 lf by (auto simp only: num)
  from c6[OF m17] fest(2)
  have v17: "naive_forecast br17 = 400 \<and> festival_adjusted_forecast br17 = 400"
    unfolding k17 lf by (auto simp only: num)
  have "\<exists>r\<in>set b. key_of r = (16, ''SKU003_Cheese'', ''Kolkata'')
           \<and> week r \<in> set festival_weeks
           \<and> naive_forecast r = 400 \<and> festival_adjusted_forecast r = 580"
    using m16 v16 k16 fest(1) by (intro bexI[of _ br16]) (simp_all add: key_of_def)
  moreover have "\<exists>r\<in>set b. key_of r = (17, ''SKU003_Cheese'', ''Kolkata'')
           \<and> week r \<notin> set festival_weeks
           \<and> naive_forecast r = 400 \<and> festival_adjusted_forecast r = 400"
    using m17 v17 k17 fest(2) by (intro bexI[of _ br17]) (simp_all add: key_of_def)
  ultimately show ?thesis using r by blast
qed

lemma np_true_divide_nonzero:
  "a \<noteq> 0 \<Longrightarrow> np_true_divide x a = Finite (x / real_of_int a)"
  by (simp add: np_true_divide_def)

lemma np_true_divide_zero: "division_by_zero (np_true_divide x 0)"
  by (simp add: np_true_divide_def division_by_zero_def)

lemma not_division_by_zero_Finite: "\<not> division_by_zero (Finite x)"
  by (simp add: division_by_zero_def)

text \<open>
  C3.  When \<^verbatim>\<open>calculate_baseline_forecast\<close> returns, every performance row whose
  actual value \<open>a\<close> (the first matching row of its week) is not 0 has
  \<open>naive_mape = |a - naive_baseline| / a\<close> and \<open>festival_mape = |a - festival_adjusted| / a\<close>,
  with the un-truncated mean and its festival adjustment.  Nothing guards the division:
  a row whose actual value is 0 stores the outcome of a division by zero, and there is
  an actuals table with a matched row of quantity 0 at a week from 5 on for which this
  happens.
\<close>

theorem mape_formula_and_unguarded_division:
  assumes "calculate_baseline_forecast actuals_df = Inr (baseline_df, performance_df)"
  shows "(\<forall>r\<in>set performance_df.
            \<exists>a rest. actuals_of actuals_df (week r) (sku r) (dc r) = a # rest
              \<and> (a \<noteq> 0 \<longrightarrow>
                    naive_mape r =
                      Finite (\<bar>real_of_int a - mean (last_four_of actuals_df (week r) (sku r) (dc r))\<bar>
                              / real_of_int a)
                  \<and> festival_mape r =
                      Finite (\<bar>real_of_int a - mean (last_four_of actuals_df (week r) (sku r) (dc r))
                                  * (if week r \<in> set festival_weeks then 1.45 else 1)\<bar>
                              / real_of_int a))
              \<and> (a = 0 \<longrightarrow> division_by_zero (naive_mape r) \<and> division_by_zero (festival_mape r)))
       \<and> (\<exists>table b p. calculate_baseline_forecast table = Inr (b, p)
             \<and> (\<exists>x\<in>set table. \<exists>r\<in>set p.
                   5 \<le> week x \<and> actual_qty x = 0 \<and> key_of r = key_of x
                   \<and> actuals_of table (week r) (sku r) (dc r) = [actual_qty x]
                   \<and> division_by_zero (naive_mape r) \<and> division_by_zero (festival_mape r)))"
proof
  show "\<forall>r\<in>set performance_df.
            \<exists>a rest. actuals_of actuals_df (week r) (sku r) (dc r) = a # rest
              \<and> (a \<noteq> 0 \<longrightarrow>
                    naive_mape r =
                      Finite (\<bar>real_of_int a - mean (last_four_of actuals_df (week r) (sku r) (dc r))\<bar>
                              / real_of_int a)
                  \<and> festival_mape r =
                      Finite (\<bar>real_of_int a - mean (last_four_of actuals_df (week r) (sku r) (dc r))
                                  * (if week r \<in> set festival_weeks then 1.45 else 1)\<bar>
                              / real_of_int a))
              \<and> (a = 0 \<longrightarrow> division_by_zero (naive_mape r) \<and> division_by_zero (festival_mape r))"
  proof
    fix r
    assume "r \<in> set performance_df"
    from calculate_performance_row[OF assms this]
    obtain av rest where av: "actuals_of actuals_df (week r) (sku r) (dc r) = av # rest"
      and n: "naive_mape r =
              np_true_divide \<bar>real_of_int av - mean (last_four_of actuals_df (week r) (sku r) (dc r))\<bar> av"
      and f: "festival_mape r =
              np_true_divide
                \<bar>real_of_int av - mean (last_four_of actuals_df (week r) (sku r) (dc r))
                    * (if week r \<in> set festival_weeks then 1.45 else 1)\<bar> av"
      by blast
    show "\<exists>a rest. actuals_of actuals_df (week r) (sku r) (dc r) = a # rest
              \<and> (a \<noteq> 0 \<longrightarrow>
                    naive_mape r =
                      Finite (\<bar>real_of_int a - mean (last_four_of actuals_df (week r) (sku r) (dc r))\<bar>
                              / real_of_int a)
                  \<and> festival_mape r =
                      Finite (\<bar>real_of_int a - mean (last_four_of actuals_df (week r) (sku r) (dc r))
                                  * (if week r \<in> set festival_weeks then 1.45 else 1)\<bar>
                              / real_of_int a))
              \<and> (a = 0 \<longrightarrow> division_by_zero (naive_mape r) \<and> division_by_zero (festival_mape r))"
    proof (intro exI conjI impI)
      show "actuals_of actuals_df (week r) (sku r) (dc r) = av # rest" by (rule av)
    next
      assume "av \<noteq> 0"
      then show "naive_mape r =
          Finite (\<bar>real_of_int av - mean (last_four_of actuals_df (week r) (sku r) (dc r))\<bar>
                  / real_of_int av)"
        unfolding n by (rule np_true_divide_nonzero)
    next
      assume "av \<noteq> 0"
      then show "festival_mape r =
          Finite (\<bar>real_of_int av - mean (last_four_of actuals_df (week r) (sku r) (dc r))
                      * (if week r \<in> set festival_weeks then 1.45 else 1)\<bar>
                  / real_of_int av)"
        unfolding f by (rule np_true_divide_nonzero)
    next
      assume "av = 0"
      then show "division_by_zero (naive_mape r)"
        unfolding n by (simp add: np_true_divide_zero)
    next
      assume "av = 0"
      then show "division_by_zero (festival_mape r)"
        unfolding f by (simp add: np_true_divide_zero)
    qed
  qed
next
  let ?q = "\<lambda>wk::int. if wk = 8 then 0 else (500::int)"
  let ?T = "history ''SKU001_Snacks'' ''Mumbai'' ?q"
  let ?x = "\<lparr>week = 8, sku = ''SKU001_Snacks'', dc = ''Mumbai'', actual_qty = 0\<rparr> :: actual_row"
  from calculate_history_returns obtain b p where r: "calculate_baseline_forecast ?T = Inr (b, p)"
    by blast
  have wk: "(8::int) \<in> {5..104}" and wk1: "(8::int) \<in> {1..104}" by simp_all
  have "?x = (\<lambda>wk. \<lparr>week = wk, sku = ''SKU001_Snacks'', dc = ''Mumbai'', actual_qty = ?q wk\<rparr>) 8"
    by simp
  also have "\<dots> \<in> (\<lambda>wk. \<lparr>week = wk, sku = ''SKU001_Snacks'', dc = ''Mumbai'', actual_qty = ?q wk\<rparr>)
                  ` set [1..104]"
    by (rule imageI) simp
  finally have x: "?x \<in> set ?T"
    by (simp add: history_def)
  obtain br pr where body: "baseline_body ?T 8 ''SKU001_Snacks'' ''Mumbai'' = Inr [(br, pr)]"
    and k: "week pr = 8" "sku pr = ''SKU001_Snacks''" "dc pr = ''Mumbai''"
    and n: "naive_mape pr = np_true_divide \<bar>real_of_int (?q 8) - mean (map ?q [8 - 4..8 - 1])\<bar> (?q 8)"
    and f: "festival_mape pr = np_true_divide
                 \<bar>real_of_int (?q 8)
                   - mean (map ?q [8 - 4..8 - 1]) * (if 8 \<in> set festival_weeks then 1.45 else 1)\<bar>
                 (?q 8)"
    unfolding baseline_body_history[OF wk] by simp
  have z: "?q 8 = 0" by simp
  have dz: "division_by_zero (naive_mape pr)" "division_by_zero (festival_mape pr)"
    unfolding n f z by (rule np_true_divide_zero)+
  have mem: "pr \<in> set p"
    using calculate_history_row[OF r wk _ _ body] by (simp add: skus_def dcs_def)
  have ao: "actuals_of ?T (week pr) (sku pr) (dc pr) = [actual_qty ?x]"
    unfolding k actuals_of_history[OF wk1] by simp
  have "\<exists>x\<in>set ?T. \<exists>r\<in>set p.
          5 \<le> week x \<and> actual_qty x = 0 \<and> key_of r = key_of x
          \<and> actuals_of ?T (week r) (sku r) (dc r) = [actual_qty x]
          \<and> division_by_zero (naive_mape r) \<and> division_by_zero (festival_mape r)"
    using x mem dz ao k by (intro bexI[of _ ?x] bexI[of _ pr]) (simp_all add: key_of_def)
  with r show "\<exists>table b p. calculate_baseline_forecast table = Inr (b, p)
             \<and> (\<exists>x\<in>set table. \<exists>r\<in>set p.
                   5 \<le> week x \<and> actual_qty x = 0 \<and> key_of r = key_of x
                   \<and> actuals_of table (week r) (sku r) (dc r) = [actual_qty x]
                   \<and> division_by_zero (naive_mape r) \<and> division_by_zero (festival_mape r))"
    by blast
qed


theorem mape_formula_and_unguarded_division_witness:
  "\<exists>b p. calculate_baseline_forecast
            (history ''SKU001_Snacks'' ''Mumbai''
               (\<lambda>wk. if wk = 4 then 480 else if wk = 5 then 510 else if wk = 6 then 495
                     else if wk = 7 then 505 else 700)) = Inr (b, p)
     \<and> (\<exists>r\<in>set p. key_of r = (8, ''SKU001_Snacks'', ''Mumbai'')
           \<and> naive_mape r = Finite (\<bar>700 - 497.5\<bar> / 700)
           \<and> festival_mape r = Finite (\<bar>700 - 497.5 * 1.45\<bar> / 700))"
proof -
  let ?q = "\<lambda>wk::int. if wk = 4 then 480 else if wk = 5 then 510 else if wk = 6 then 495
                     else if wk = 7 then 505 else (700::int)"
  let ?T = "history ''SKU001_Snacks'' ''Mumbai'' ?q"
  from calculate_history_returns obtain b p where r: "calculate_baseline_forecast ?T = Inr (b, p)"
    by blast
  have wk: "(8::int) \<in> {5..104}" and wk1: "(8::int) \<in> {1..104}" by simp_all
  have fest: "8 \<in> set festival_weeks"
    by (simp add: festival_weeks_def)
  obtain br pr where body: "baseline_body ?T 8 ''SKU001_Snacks'' ''Mumbai'' = Inr [(br, pr)]"
    and k: "week pr = 8" "sku pr = ''SKU001_Snacks''" "dc pr = ''Mumbai''"
    unfolding baseline_body_history[OF wk] by simp
  have mem: "pr \<in> set p"
    using calculate_history_row[OF r wk _ _ body] by (simp add: skus_def dcs_def)
  have ao: "actuals_of ?T 8 ''SKU001_Snacks'' ''Mumbai'' = [700]"
    unfolding actuals_of_history[OF wk1] by simp
  have lf: "last_four_of ?T 8 ''SKU001_Snacks'' ''Mumbai'' = [480, 510, 495, 505]"
    by (simp add: last_four_of_history[OF wk])
  from mape_formula_and_unguarded_division[OF r, THEN conjunct1, rule_format, OF mem]
  have "naive_mape pr = Finite (\<bar>real_of_int 700 - mean [480, 510, 495, 505]\<bar> / real_of_int 700)
      \<and> festival_mape pr =
          Finite (\<bar>real_of_int 700 - mean [480, 510, 495, 505]
                      * (if 8 \<in> set festival_weeks then 1.45 else 1)\<bar> / real_of_int 700)"
    unfolding k ao lf by auto
  with fest have "naive_mape pr = Finite (\<bar>700 - 497.5\<bar> / 700)
      \<and> festival_mape pr = Finite (\<bar>700 - 497.5 * 1.45\<bar> / 700)"
    by (simp add: example_numbers(4))
  with mem k have "\<exists>r\<in>set p. key_of r = (8, ''SKU001_Snacks'', ''Mumbai'')
           \<and> naive_mape r = Finite (\<bar>700 - 497.5\<bar> / 700)
           \<and> festival_mape r = Finite (\<bar>700 - 497.5 * 1.45\<bar> / 700)"
    by (intro bexI[of _ pr]) (simp_all add: key_of_def)
  with r show ?thesis by blast
qed

section \<open>Claims on the pipeline\<close>

lemma actuals_of_nonempty:
  assumes "(wk, s, d) \<in> set (map key_of a)"
  shows "actuals_of a wk s d \<noteq> []"
proof -
  from assms obtain x where "x \<in> set a" and "key_of x = (wk, s, d)" by auto
  then have "x \<in> set (filter (\<lambda>r. week r = wk \<and> sku r = s \<and> dc r = d) a)"
    by (simp add: key_of_def)
  then have "filter (\<lambda>r. week r = wk \<and> sku r = s \<and> dc r = d) a \<noteq> []"
    by (metis list.set(1) empty_iff)
  then show ?thesis
    by (simp add: actuals_of_def)
qed

lemma actuals_of_member:
  assumes "actuals_of a wk s d = av # rest"
  shows "\<exists>x\<in>set a. actual_qty x = av"
proof -
  have "av \<in> set (actuals_of a wk s d)"
    by (simp add: assms)
  then show ?thesis
    by (auto simp: actuals_of_def)
qed

lemma last_four_of_loop_keys:
  assumes "map key_of a = loop_keys (py_range 1 (weeks + 1))"
    and "wk \<in> {5..104}" and "s \<in> set skus" and "d \<in> set dcs"
  shows "length (last_four_of a wk s d) = 4"
proof -
  let ?P = "\<lambda>k. wk - 4 \<le> fst k \<and> fst k < wk \<and> fst (snd k) = s \<and> snd (snd k) = d"
  let ?keys = "loop_keys (py_range 1 (weeks + 1))"
  have "length (last_four_of a wk s d) = length (filter (\<lambda>x. ?P (key_of x)) a)"
    by (simp add: last_four_of_def key_of_def)
  also have "\<dots> = length (filter ?P (map key_of a))"
    by (simp add: filter_map comp_def)
  also have "\<dots> = length (filter ?P ?keys)"
    by (simp only: assms(1))
  also have "\<dots> = card ({k. ?P k} \<inter> set ?keys)"
    by (rule distinct_length_filter) (rule distinct_loop_keys, rule distinct_forecast_weeks)
  also have "{k. ?P k} \<inter> set ?keys = {wk - 4..wk - 1} \<times> {s} \<times> {d}"
    using assms(2-4) by (auto simp: set_loop_keys set_py_range weeks_def)
  also have "card ({wk - 4..wk - 1} \<times> {s} \<times> {d}) = 4"
    by (simp add: card_cartesian_product)
  finally show ?thesis .
qed

lemma calculate_emits_row:
  assumes "calculate_baseline_forecast a = Inr (b, p)"
    and "wk \<in> {5..104}" and "s \<in> set skus" and "d \<in> set dcs"
    and "4 \<le> length (last_four_of a wk s d)"
  shows "\<exists>br\<in>set b. \<exists>pr\<in>set p. key_of br = (wk, s, d) \<and> key_of pr = (wk, s, d)"
proof -
  from calculate_Inr_body[OF assms(1-4)]
  obtain ys where ys: "baseline_body a wk s d = Inr ys"
    and sub: "fst ` set ys \<subseteq> set b" "snd ` set ys \<subseteq> set p"
    by blast
  have "ys \<noteq> []"
    using ys assms(5) by (auto simp: baseline_body_def Let_def split: list.splits)
  then obtain bp where bp: "bp \<in> set ys" by (cases ys) auto
  with baseline_body_cases[of a wk s d] ys
  have "baseline_body a wk s d = Inr [(fst bp, snd bp)]" by auto
  from baseline_body_emitted[OF this]
  have "key_of (fst bp) = (wk, s, d)" "key_of (snd bp) = (wk, s, d)"
    by (auto simp: key_of_def)
  moreover from bp sub have "fst bp \<in> set b" "snd bp \<in> set p" by auto
  ultimately show ?thesis by blast
qed

lemma generate_all_data_Inr:
  assumes "generate_all_data g = Inr (f, a, b, p)"
  shows "\<exists>g1. generate_forecast_data g = Inr (f, g1) \<and> a = fst (generate_actuals_data f g1)
           \<and> calculate_baseline_forecast a = Inr (b, p)"
  using assms
  by (auto simp: generate_all_data_def split: sum.splits prod.splits)

text \<open>
  C4.  For every random stream the pipeline returns, every forecast quantity is at least
  50, every \<open>actual_qty\<close> that \<^verbatim>\<open>generate_actuals_data\<close> produces from this forecast is
  strictly positive, and no MAPE of the performance table that
  \<^verbatim>\<open>calculate_baseline_forecast\<close> computes from these actuals comes from a division by
  zero.
\<close>

theorem pipeline_actuals_positive_no_division_by_zero:
  assumes "unit_draws g"
  shows "\<exists>forecast_df actuals_df baseline_df performance_df.
           generate_all_data g = Inr (forecast_df, actuals_df, baseline_df, performance_df)
           \<and> (\<forall>r\<in>set forecast_df. 50 \<le> forecast_qty r)
           \<and> (\<forall>r\<in>set actuals_df. 0 < actual_qty r)
           \<and> (\<forall>r\<in>set performance_df.
                 \<not> division_by_zero (naive_mape r) \<and> \<not> division_by_zero (festival_mape r))"
proof -
  from generate_forecast_data_rows[of True g] assms
  obtain f g1 where fr: "generate_forecast_data g = Inr (f, g1)" and g1: "unit_draws g1"
    and fkeys: "map key_of f = loop_keys (py_range 1 (weeks + 1))"
    and fqty: "\<forall>r\<in>set f. 50 \<le> forecast_qty r"
    by auto
  obtain a g2 where ar: "generate_actuals_data f g1 = (a, g2)"
    by (cases "generate_actuals_data f g1")
  from generate_actuals_data_rows[of True g1 f] g1 fqty ar
  have akeys: "map key_of a = map key_of f" and aqty: "\<forall>r\<in>set a. 33 \<le> actual_qty r"
    by simp_all
  from aqty have apos: "\<forall>r\<in>set a. 0 < actual_qty r" by fastforce
  have "\<exists>b p. calculate_baseline_forecast a = Inr (b, p)"
  proof (rule calculate_returns)
    fix wk :: int and s d
    assume "wk \<in> {5..104}" "s \<in> set skus" "d \<in> set dcs"
    then have "(wk, s, d) \<in> set (map key_of a)"
      unfolding akeys fkeys by (simp add: set_loop_keys set_py_range weeks_def)
    then show "actuals_of a wk s d \<noteq> []" by (rule actuals_of_nonempty)
  qed
  then obtain b p where cr: "calculate_baseline_forecast a = Inr (b, p)" by blast
  have perf: "\<not> division_by_zero (naive_mape r) \<and> \<not> division_by_zero (festival_mape r)"
    if "r \<in> set p" for r
  proof -
    from calculate_performance_row[OF cr that]
    obtain av rest where av: "actuals_of a (week r) (sku r) (dc r) = av # rest"
      and n: "naive_mape r =
              np_true_divide \<bar>real_of_int av - mean (last_four_of a (week r) (sku r) (dc r))\<bar> av"
      and fm: "festival_mape r =
              np_true_divide
                \<bar>real_of_int av - mean (last_four_of a (week r) (sku r) (dc r))
                    * (if week r \<in> set festival_weeks then 1.45 else 1)\<bar> av"
      by blast
    from actuals_of_member[OF av] apos have "av \<noteq> 0" by auto
    then show ?thesis
      unfolding n fm by (simp add: np_true_divide_nonzero not_division_by_zero_Finite)
  qed
  have "generate_all_data g = Inr (f, a, b, p)"
    by (simp add: generate_all_data_def fr ar cr)
  with fqty apos perf show ?thesis by blast
qed


theorem pipeline_actuals_positive_no_division_by_zero_witness:
  "unit_draws (sconst 0)
   \<and> (\<exists>forecast_df actuals_df baseline_df performance_df.
         generate_all_data (sconst 0) = Inr (forecast_df, actuals_df, baseline_df, performance_df)
         \<and> length actuals_df = 1040
         \<and> 0 < actual_qty (hd actuals_df)
         \<and> (\<exists>r\<in>set performance_df. key_of r = (5, ''SKU001_Snacks'', ''Mumbai'')
               \<and> \<not> division_by_zero (naive_mape r) \<and> \<not> division_by_zero (festival_mape r)))"
proof -
  from pipeline_actuals_positive_no_division_by_zero[OF unit_draws_sconst0]
  obtain f a b p where r: "generate_all_data (sconst 0) = Inr (f, a, b, p)"
    and apos: "\<forall>r\<in>set a. 0 < actual_qty r"
    and perf: "\<forall>r\<in>set p. \<not> division_by_zero (naive_mape r) \<and> \<not> division_by_zero (festival_mape r)"
    by blast
  from generate_all_data_Inr[OF r]
  obtain g1 where fr: "generate_forecast_data (sconst 0) = Inr (f, g1)"
    and a: "a = fst (generate_actuals_data f g1)"
    and cr: "calculate_baseline_forecast a = Inr (b, p)"
    by blast
  from generate_forecast_data_rows[of False "sconst 0"] fr
  have fkeys: "map key_of f = loop_keys (py_range 1 (weeks + 1))" by auto
  from generate_actuals_data_rows[of False g1 f]
  have akeys: "map key_of a = loop_keys (py_range 1 (weeks + 1))"
    unfolding a fkeys[symmetric] by simp
  have "length (map key_of a) = 1040"
    unfolding akeys by (simp add: length_loop_keys length_py_range weeks_def)
  then have len: "length a = 1040" by simp
  then have "a \<noteq> []" by auto
  then have "hd a \<in> set a" by simp
  with apos have hd: "0 < actual_qty (hd a)" by blast
  have wk: "(5::int) \<in> {5..104}" by simp
  have s: "''SKU001_Snacks'' \<in> set skus" and d: "''Mumbai'' \<in> set dcs"
    by (simp_all add: skus_def dcs_def)
  have "4 \<le> length (last_four_of a 5 ''SKU001_Snacks'' ''Mumbai'')"
    by (simp add: last_four_of_loop_keys[OF akeys wk s d])
  from calculate_emits_row[OF cr wk s d this]
  obtain pr where "pr \<in> set p" "key_of pr = (5, ''SKU001_Snacks'', ''Mumbai'')" by blast
  with perf have "\<exists>r\<in>set p. key_of r = (5, ''SKU001_Snacks'', ''Mumbai'')
               \<and> \<not> division_by_zero (naive_mape r) \<and> \<not> division_by_zero (festival_mape r)"
    by blast
  with r len hd unit_draws_sconst0 show ?thesis by blast
qed

end
